theory Spec2Isabelle
  imports Main "HOL-Library.AList"
begin

section \<open>Python strings\<close>

text \<open>
  A Python \<^verbatim>\<open>str\<close> is a \<^typ>\<open>string\<close>: a list of code points below 256. The
  whitespace that \<^verbatim>\<open>str.strip()\<close> removes and the characters that \<^verbatim>\<open>str.isdigit()\<close>
  accepts are the ones Python gives for that range (the superscripts U+00B2, U+00B3 and
  U+00B9 count as digits).
\<close>

definition py_whitespace :: "char list" where
  "py_whitespace = [CHR 0x09, CHR 0x0A, CHR 0x0B, CHR 0x0C, CHR 0x0D, CHR 0x1C, CHR 0x1D,
     CHR 0x1E, CHR 0x1F, CHR 0x20, CHR 0x85, CHR 0xA0]"

definition isspace :: "char \<Rightarrow> bool" where
  "isspace c = (c \<in> set py_whitespace)"

definition strip :: "string \<Rightarrow> string" where
  "strip s = rev (dropWhile isspace (rev (dropWhile isspace s)))"

definition py_digits :: "char list" where
  "py_digits = ''0123456789'' @ [CHR 0xB2, CHR 0xB3, CHR 0xB9]"

definition isdigit :: "string \<Rightarrow> bool" where
  "isdigit s = (s \<noteq> [] \<and> list_all (\<lambda>c. c \<in> set py_digits) s)"

fun join :: "string \<Rightarrow> string list \<Rightarrow> string" where
  "join sep [] = []"
| "join sep [x] = x"
| "join sep (x # y # ys) = x @ sep @ join sep (y # ys)"

text \<open>The format specification \<^verbatim>\<open>:<w\<close> of an f-string: pad with spaces on the right.\<close>

definition ljust :: "nat \<Rightarrow> string \<Rightarrow> string" where
  "ljust w s = s @ replicate (w - length s) (CHR '' '')"

fun str_nat :: "nat \<Rightarrow> string" where
  "str_nat n = (if n < 10 then [''0123456789'' ! n] else str_nat (n div 10) @ [''0123456789'' ! (n mod 10)])"

definition str_int :: "int \<Rightarrow> string" where
  "str_int i = (if i < 0 then CHR ''-'' # str_nat (nat (- i)) else str_nat (nat i))"

section \<open>Python values, dictionaries and the object store\<close>

text \<open>
  \<^verbatim>\<open>json.loads\<close> yields \<^verbatim>\<open>None\<close>, booleans, integers, floats, strings, lists and
  dictionaries; the selectors add \<^verbatim>\<open>quantiphy.Quantity\<close> objects. Floats are values of
  a type \<open>'f\<close> the model does not look into. A dictionary is an object: a value holds its
  address (\<open>PRef\<close>) and the store maps addresses to contents, so that two lists holding the
  same dictionary see each other's updates. A \<open>Quantity\<close> is built by the program either
  from a float or from the integer literal \<^verbatim>\<open>0\<close>.
\<close>

datatype 'f qnumber = QZero | QFloat 'f

datatype 'f pyval =
    PNone
  | PBool bool
  | PInt int
  | PFloat 'f
  | PStr string
  | PList "'f pyval list"
  | PRef nat
  | PQuantity "'f qnumber" string

type_synonym 'f dict = "(string \<times> 'f pyval) list"

type_synonym 'f heap = "nat \<Rightarrow> 'f dict"

datatype pyerror =
    AttributeError
  | TypeError
  | KeyError string
  | ValueError
  | JSONDecodeError
  | FileNotFoundError
  | KeyboardInterrupt

text \<open>
  What the program takes from the interpreter and its libraries without computing it
  itself: \<^verbatim>\<open>float()\<close> of an integer (\<open>None\<close> is OverflowError) and of a string (\<open>None\<close>
  is ValueError), whether a float is non-zero, \<^verbatim>\<open>str()\<close> of a float, of a list and of a
  dictionary, \<^verbatim>\<open>str()\<close> of a \<open>Quantity\<close> built from a float and its units, and
  \<^verbatim>\<open>json.loads\<close>.
\<close>

record 'f pylib =
  float_of_int :: "int \<Rightarrow> 'f option"
  float_of_str :: "string \<Rightarrow> 'f option"
  float_nonzero :: "'f \<Rightarrow> bool"
  float_str :: "'f \<Rightarrow> string"
  container_str :: "'f heap \<Rightarrow> 'f pyval \<Rightarrow> string"
  quantity_str :: "'f \<Rightarrow> string \<Rightarrow> string"
  json_loads :: "string \<Rightarrow> pyerror + ('f heap \<times> 'f pyval)"

text \<open>\<^verbatim>\<open>float(number)\<close>; \<open>None\<close> when it raises.\<close>

fun py_float :: "'f pylib \<Rightarrow> 'f pyval \<Rightarrow> 'f option" where
  "py_float lib PNone = None"
| "py_float lib (PBool b) = float_of_int lib (if b then 1 else 0)"
| "py_float lib (PInt n) = float_of_int lib n"
| "py_float lib (PFloat x) = Some x"
| "py_float lib (PStr s) = float_of_str lib s"
| "py_float lib (PList xs) = None"
| "py_float lib (PRef a) = None"
| "py_float lib (PQuantity QZero u) = float_of_int lib 0"
| "py_float lib (PQuantity (QFloat x) u) = Some x"

text \<open>Truth value testing, as \<^verbatim>\<open>if v\<close>, \<^verbatim>\<open>not v\<close> and \<^verbatim>\<open>filter(bool, ...)\<close> use it.\<close>

fun truthy :: "'f pylib \<Rightarrow> 'f heap \<Rightarrow> 'f pyval \<Rightarrow> bool" where
  "truthy lib h PNone = False"
| "truthy lib h (PBool b) = b"
| "truthy lib h (PInt n) = (n \<noteq> 0)"
| "truthy lib h (PFloat x) = float_nonzero lib x"
| "truthy lib h (PStr s) = (s \<noteq> [])"
| "truthy lib h (PList xs) = (xs \<noteq> [])"
| "truthy lib h (PRef a) = (h a \<noteq> [])"
| "truthy lib h (PQuantity QZero u) = False"
| "truthy lib h (PQuantity (QFloat x) u) = float_nonzero lib x"

text \<open>
  \<^verbatim>\<open>str(v)\<close>. quantiphy renders the zero quantity as \<^verbatim>\<open>0\<close>, followed by a space and
  the units when there are units.
\<close>

fun py_str :: "'f pylib \<Rightarrow> 'f heap \<Rightarrow> 'f pyval \<Rightarrow> string" where
  "py_str lib h PNone = ''None''"
| "py_str lib h (PBool b) = (if b then ''True'' else ''False'')"
| "py_str lib h (PInt n) = str_int n"
| "py_str lib h (PFloat x) = float_str lib x"
| "py_str lib h (PStr s) = s"
| "py_str lib h (PList xs) = container_str lib h (PList xs)"
| "py_str lib h (PRef a) = container_str lib h (PRef a)"
| "py_str lib h (PQuantity QZero u) = (if u = [] then ''0'' else ''0 '' @ u)"
| "py_str lib h (PQuantity (QFloat x) u) = quantity_str lib x u"

text \<open>\<^verbatim>\<open>d.get(k, default)\<close> and \<^verbatim>\<open>d[k] = v\<close> on the contents of a dictionary.\<close>

definition dict_get :: "'f dict \<Rightarrow> string \<Rightarrow> 'f pyval \<Rightarrow> 'f pyval" where
  "dict_get d k dflt = (case map_of d k of None \<Rightarrow> dflt | Some v \<Rightarrow> v)"

definition dict_set :: "'f dict \<Rightarrow> string \<Rightarrow> 'f pyval \<Rightarrow> 'f dict" where
  "dict_set d k v = AList.update k v d"

text \<open>\<^verbatim>\<open>v.get(k, default)\<close> on any value: only a dictionary has the method.\<close>

fun obj_get :: "'f heap \<Rightarrow> 'f pyval \<Rightarrow> string \<Rightarrow> 'f pyval \<Rightarrow> pyerror + 'f pyval" where
  "obj_get h (PRef a) k dflt = Inr (dict_get (h a) k dflt)"
| "obj_get h v k dflt = Inl AttributeError"

text \<open>The elements a \<^verbatim>\<open>for\<close> loop takes from a value.\<close>

fun py_iter :: "'f heap \<Rightarrow> 'f pyval \<Rightarrow> pyerror + 'f pyval list" where
  "py_iter h (PList xs) = Inr xs"
| "py_iter h (PStr s) = Inr (map (\<lambda>c. PStr [c]) s)"
| "py_iter h (PRef a) = Inr (map (\<lambda>kv. PStr (fst kv)) (h a))"
| "py_iter h v = Inl TypeError"

section \<open>get_quantity\<close>

definition get_quantity :: "'f pylib \<Rightarrow> 'f pyval \<Rightarrow> string \<Rightarrow> string option \<Rightarrow> 'f pyval" where
  "get_quantity lib number model info =
     (case py_float lib number of
        Some x \<Rightarrow> PQuantity (QFloat x) model
      | None \<Rightarrow>
         (case info of
            Some i \<Rightarrow> PStr i
          | None \<Rightarrow> PQuantity QZero model))"

section \<open>request_ytdlp_metadata: the classifier\<close>

record 'f formats =
  audio :: "'f pyval list"
  video :: "'f pyval list"
  image :: "'f pyval list"
  metadata :: "'f pyval"

text \<open>The first loop of \<^verbatim>\<open>request_ytdlp_metadata\<close>, over \<^verbatim>\<open>metadata.get("formats")\<close>.\<close>

fun classify_formats ::
  "'f heap \<Rightarrow> 'f pyval list \<Rightarrow> 'f pyval list \<times> 'f pyval list \<Rightarrow> pyerror + ('f pyval list \<times> 'f pyval list)" where
  "classify_formats h [] acc = Inr acc"
| "classify_formats h (fmt # rest) (au, vi) =
     (case obj_get h fmt ''format_id'' (PStr []) of
        Inl e \<Rightarrow> Inl e
      | Inr (PStr s) \<Rightarrow>
          if \<not> isdigit (strip s) then classify_formats h rest (au, vi)
          else
            (case obj_get h fmt ''acodec'' (PStr ''none'') of
               Inl e \<Rightarrow> Inl e
             | Inr ac \<Rightarrow>
                 if ac \<noteq> PStr ''none'' then classify_formats h rest (au @ [fmt], vi)
                 else
                   (case obj_get h fmt ''vcodec'' (PStr ''none'') of
                      Inl e \<Rightarrow> Inl e
                    | Inr vc \<Rightarrow>
                        if vc \<noteq> PStr ''none'' then classify_formats h rest (au, vi @ [fmt])
                        else classify_formats h rest (au, vi)))
      | Inr _ \<Rightarrow> Inl AttributeError)"

text \<open>The second loop, over \<^verbatim>\<open>metadata.get("thumbnails")\<close>.\<close>

fun classify_thumbnails ::
  "'f pylib \<Rightarrow> 'f heap \<Rightarrow> 'f pyval list \<Rightarrow> 'f pyval list \<Rightarrow> pyerror + 'f pyval list" where
  "classify_thumbnails lib h [] im = Inr im"
| "classify_thumbnails lib h (fmt # rest) im =
     (case obj_get h fmt ''resolution'' PNone of
        Inl e \<Rightarrow> Inl e
      | Inr r \<Rightarrow>
          if truthy lib h r then classify_thumbnails lib h rest (im @ [fmt])
          else classify_thumbnails lib h rest im)"

text \<open>
  \<^verbatim>\<open>request_ytdlp_metadata\<close> from the line after \<^verbatim>\<open>json.loads\<close>: the dictionary
  \<^verbatim>\<open>formats\<close> it returns.
\<close>

definition classify :: "'f pylib \<Rightarrow> 'f heap \<Rightarrow> 'f pyval \<Rightarrow> pyerror + 'f formats" where
  "classify lib h md =
     (case obj_get h md ''formats'' PNone of
        Inl e \<Rightarrow> Inl e
      | Inr fs \<Rightarrow>
     (case py_iter h fs of
        Inl e \<Rightarrow> Inl e
      | Inr xs \<Rightarrow>
     (case classify_formats h xs ([], []) of
        Inl e \<Rightarrow> Inl e
      | Inr (au, vi) \<Rightarrow>
     (case obj_get h md ''thumbnails'' PNone of
        Inl e \<Rightarrow> Inl e
      | Inr ts \<Rightarrow>
     (case py_iter h ts of
        Inl e \<Rightarrow> Inl e
      | Inr ys \<Rightarrow>
     (case classify_thumbnails lib h ys [] of
        Inl e \<Rightarrow> Inl e
      | Inr im \<Rightarrow> Inr \<lparr>audio = au, video = vi, image = im, metadata = md\<rparr>))))))"

section \<open>pathlib\<close>

text \<open>
  \<^verbatim>\<open>pathlib.Path\<close> with POSIX separators: the root and the components, where empty
  components and \<^verbatim>\<open>.\<close> are dropped. \<^verbatim>\<open>suffix\<close> and \<^verbatim>\<open>with_suffix\<close> work on the last
  component and \<^verbatim>\<open>with_suffix\<close> raises ValueError on a path without one.
\<close>

record ppath =
  proot :: string
  ptail :: "string list"

fun split_on :: "char \<Rightarrow> string \<Rightarrow> string list" where
  "split_on c [] = [[]]"
| "split_on c (x # xs) =
     (if x = c then [] # split_on c xs
      else (case split_on c xs of [] \<Rightarrow> [[x]] | p # ps \<Rightarrow> (x # p) # ps))"

definition Path :: "string \<Rightarrow> ppath" where
  "Path s =
     \<lparr>proot = (if take 2 s = ''//'' \<and> take 3 s \<noteq> ''///'' then ''//''
               else if take 1 s = ''/'' then ''/'' else []),
      ptail = filter (\<lambda>p. p \<noteq> [] \<and> p \<noteq> ''.'') (split_on (CHR ''/'') s)\<rparr>"

definition path_name :: "ppath \<Rightarrow> string" where
  "path_name p = (if ptail p = [] then [] else last (ptail p))"

definition name_suffix :: "string \<Rightarrow> string" where
  "name_suffix nm =
     (if CHR ''.'' \<notin> set nm then []
      else
        (let ext = rev (takeWhile (\<lambda>c. c \<noteq> CHR ''.'') (rev nm));
             i = length nm - length ext - 1
         in if 0 < i \<and> ext \<noteq> [] then CHR ''.'' # ext else []))"

definition suffix :: "ppath \<Rightarrow> string" where
  "suffix p = name_suffix (path_name p)"

definition with_suffix :: "ppath \<Rightarrow> string \<Rightarrow> pyerror + ppath" where
  "with_suffix p suf =
     (if CHR ''/'' \<in> set suf then Inl ValueError
      else if (suf \<noteq> [] \<and> take 1 suf \<noteq> ''.'') \<or> suf = ''.'' then Inl ValueError
      else if path_name p = [] then Inl ValueError
      else
        (let nm = path_name p;
             old_suffix = name_suffix nm;
             nm' = (if old_suffix = [] then nm @ suf
                    else take (length nm - length old_suffix) nm @ suf)
         in Inr (p\<lparr>ptail := butlast (ptail p) @ [nm']\<rparr>)))"

definition path_str :: "ppath \<Rightarrow> string" where
  "path_str p =
     (if proot p = [] \<and> ptail p = [] then ''.'' else proot p @ join ''/'' (ptail p))"

text \<open>\<^verbatim>\<open>p.absolute()\<close> with the current directory \<open>cwd\<close>.\<close>

definition absolute :: "ppath \<Rightarrow> ppath \<Rightarrow> ppath" where
  "absolute cwd p = (if proot p \<noteq> [] then p else \<lparr>proot = proot cwd, ptail = ptail cwd @ ptail p\<rparr>)"

section \<open>Configuration, console and processes\<close>

record config =
  ffmpeg_bin :: string
  ytdlp_bin :: string
  audio_format :: "string option"
  video_format :: "string option"
  thumbnail_format :: "string option"

definition CONFIG :: config where
  "CONFIG = \<lparr>ffmpeg_bin = ''ffmpeg'', ytdlp_bin = ''yt-dlp'', audio_format = Some ''best'',
     video_format = Some ''best'', thumbnail_format = None\<rparr>"

text \<open>The colorama constants the program prints.\<close>

definition Fore_RED :: string where
  "Fore_RED = CHR 0x1B # ''[31m''"

definition Fore_GREEN :: string where
  "Fore_GREEN = CHR 0x1B # ''[32m''"

definition Style_DIM :: string where
  "Style_DIM = CHR 0x1B # ''[2m''"

record 'f menu_option =
  opt_label :: string
  opt_value :: "'f pyval"
  opt_description :: "string option"

text \<open>
  What the program does to the outside, in order: a printed line, a change of directory,
  a captured \<^verbatim>\<open>subprocess.run\<close>, a prompt, a menu of \<^verbatim>\<open>pick.pick\<close> (title, options,
  default index) and an attached \<^verbatim>\<open>subprocess.Popen\<close> that is waited for.
\<close>

datatype 'f event =
    Print string
  | Chdir string
  | Run "string list"
  | Input string
  | Menu string "'f menu_option list" nat
  | Popen "string list"

text \<open>
  What the outside answers in one run: the output directory (\<^verbatim>\<open>Path.home() / "Downloads"\<close>,
  absolute) and whether it exists, the outcome of each captured command (return code,
  standard output, standard error), the line typed at the prompt, the index picked in
  each menu (\<open>None\<close>: the user interrupts) and which paths exist after the download.
\<close>

record env =
  outdir :: string
  outdir_exists :: bool
  run :: "string list \<Rightarrow> pyerror + (int \<times> string \<times> string)"
  typed_url :: string
  audio_choice :: "nat option"
  video_choice :: "nat option"
  thumbnail_choice :: "nat option"
  path_exists :: "string \<Rightarrow> bool"

text \<open>
  How a call ends: it returns, \<^verbatim>\<open>exit()\<close> ends the program, or an exception leaves it.
  Each effectful function gives the events it caused and how it ended.
\<close>

datatype 'a outcome = Ok 'a | Exited | Raised pyerror

fun then_do :: "'e list \<times> 'a outcome \<Rightarrow> ('a \<Rightarrow> 'e list \<times> 'b outcome) \<Rightarrow> 'e list \<times> 'b outcome" where
  "then_do (t, Ok a) f = (case f a of (t', r) \<Rightarrow> (t @ t', r))"
| "then_do (t, Exited) f = (t, Exited)"
| "then_do (t, Raised e) f = (t, Raised e)"

fun lift :: "pyerror + 'a \<Rightarrow> 'e list \<times> 'a outcome" where
  "lift (Inl e) = ([], Raised e)"
| "lift (Inr a) = ([], Ok a)"

definition print_command :: "string list \<Rightarrow> 'f event" where
  "print_command command = Print (Style_DIM @ ''$ '' @ join '' '' command)"

definition run_command :: "env \<Rightarrow> string list \<Rightarrow> 'f event list \<times> (int \<times> string \<times> string) outcome" where
  "run_command e command =
     ([print_command command, Run command],
      (case run e command of Inl err \<Rightarrow> Raised err | Inr process \<Rightarrow> Ok process))"

definition check_dependency_path :: "env \<Rightarrow> string \<Rightarrow> string \<Rightarrow> 'f event list \<times> bool outcome" where
  "check_dependency_path e expected_path error_message =
     (case run_command e [expected_path] of
        (t, Raised FileNotFoundError) \<Rightarrow> (t @ [Print error_message], Ok False)
      | (t, Raised err) \<Rightarrow> (t, Raised err)
      | (t, Exited) \<Rightarrow> (t, Exited)
      | (t, Ok process) \<Rightarrow> (t, Ok True))"

definition request_ytdlp_metadata ::
  "'f pylib \<Rightarrow> env \<Rightarrow> string \<Rightarrow> 'f event list \<times> ('f heap \<times> 'f formats) outcome" where
  "request_ytdlp_metadata lib e yturl =
     then_do (run_command e [ytdlp_bin CONFIG, ''-j'', yturl])
       (\<lambda>(returncode, stdout, stderr).
          if returncode \<noteq> 0 then
            ([Print (Fore_RED @ ''Critical error:''), Print stderr], Exited)
          else
            (case json_loads lib stdout of
               Inl err \<Rightarrow> ([], Raised err)
             | Inr (h, md) \<Rightarrow>
                 (case classify lib h md of
                    Inl err \<Rightarrow> ([], Raised err)
                  | Inr fm \<Rightarrow> ([], Ok (h, fm)))))"

definition ytdlp_download :: "string \<Rightarrow> string \<Rightarrow> string list \<Rightarrow> 'f event list \<times> unit outcome" where
  "ytdlp_download yturl fmt ytdlp_args =
     (let command = [ytdlp_bin CONFIG, ''-f'', fmt, yturl] @ ytdlp_args
      in ([print_command command, Popen command], Ok ()))"

section \<open>The selectors\<close>

text \<open>
  The f-string of a candidate line is a row of columns: a literal label, then the
  \<^verbatim>\<open>str()\<close> of a value, left-justified to a width.
\<close>

type_synonym 'f column = "string \<times> 'f pyval \<times> nat"

definition render_column :: "'f pylib \<Rightarrow> 'f heap \<Rightarrow> 'f column \<Rightarrow> string" where
  "render_column lib h col = (case col of (label, v, w) \<Rightarrow> label @ ljust w (py_str lib h v))"

definition render_columns :: "'f pylib \<Rightarrow> 'f heap \<Rightarrow> 'f column list \<Rightarrow> string" where
  "render_columns lib h cols = concat (map (render_column lib h) cols)"

definition audio_columns :: "'f dict \<Rightarrow> 'f column list" where
  "audio_columns d =
     [(''id: '', dict_get d ''format_id'' (PStr ''N/A''), 5),
      (''  codec: '', dict_get d ''acodec'' (PStr ''N/A''), 10),
      (''  ext: '', dict_get d ''audio_ext'' (PStr ''N/A''), 5),
      (''  lang: '', dict_get d ''language'' (PStr ''N/A''), 3),
      (''  bitrate: '', dict_get d ''abr'' (PStr ''N/A''), 7),
      (''  sample rate: '', dict_get d ''asr'' (PStr ''N/A''), 10),
      (''  filesize: '', dict_get d ''filesize'' (PStr ''N/A''), 10)]"

definition video_columns :: "'f dict \<Rightarrow> 'f column list" where
  "video_columns d =
     [(''id: '', dict_get d ''format_id'' (PStr ''N/A''), 5),
      (''  codec: '', dict_get d ''vcodec'' (PStr ''N/A''), 15),
      (''  ext: '', dict_get d ''video_ext'' (PStr ''N/A''), 5),
      (''  format: '', dict_get d ''wxh'' (PStr ''N/A''), 10),
      (''  bitrate: '', dict_get d ''vbr'' (PStr ''N/A''), 10),
      (''  fps: '', dict_get d ''fps'' (PStr ''N/A''), 4),
      (''  filesize: '', dict_get d ''filesize'' (PStr ''N/A''), 10)]"

text \<open>The three assignments of the audio loop, on the dictionary at address \<open>a\<close>.\<close>

definition audio_assign :: "'f pylib \<Rightarrow> 'f heap \<Rightarrow> nat \<Rightarrow> 'f heap" where
  "audio_assign lib h a =
     (let h1 = h(a := dict_set (h a) ''filesize'' (get_quantity lib (dict_get (h a) ''filesize'' PNone) ''B'' (Some ''N/A'')));
          h2 = h1(a := dict_set (h1 a) ''abr'' (get_quantity lib (dict_get (h1 a) ''abr'' PNone) [] (Some ''N/A'')));
          h3 = h2(a := dict_set (h2 a) ''asr'' (get_quantity lib (dict_get (h2 a) ''asr'' PNone) ''Hz'' None))
      in h3)"

text \<open>
  The three assignments of the video loop. \<^verbatim>\<open>"{width}x{height}".format(**fmt)\<close> raises
  KeyError for the first of the two keys that is missing, after the first two assignments.
\<close>

definition video_assign :: "'f pylib \<Rightarrow> 'f heap \<Rightarrow> nat \<Rightarrow> pyerror + 'f heap" where
  "video_assign lib h a =
     (let h1 = h(a := dict_set (h a) ''filesize'' (get_quantity lib (dict_get (h a) ''filesize'' PNone) ''B'' (Some ''N/A'')));
          h2 = h1(a := dict_set (h1 a) ''vbr'' (get_quantity lib (dict_get (h1 a) ''vbr'' PNone) [] None))
      in (case map_of (h2 a) ''width'' of
            None \<Rightarrow> Inl (KeyError ''width'')
          | Some width \<Rightarrow>
              (case map_of (h2 a) ''height'' of
                 None \<Rightarrow> Inl (KeyError ''height'')
               | Some height \<Rightarrow>
                   Inr (h2(a := dict_set (h2 a) ''wxh''
                          (PStr (py_str lib h2 width @ ''x'' @ py_str lib h2 height)))))))"

fun audio_loop ::
  "'f pylib \<Rightarrow> 'f heap \<Rightarrow> 'f pyval list \<Rightarrow> 'f menu_option list \<Rightarrow> pyerror + ('f heap \<times> 'f menu_option list)" where
  "audio_loop lib h [] options = Inr (h, options)"
| "audio_loop lib h (PRef a # rest) options =
     (let h' = audio_assign lib h a;
          label = render_columns lib h' (audio_columns (h' a))
      in audio_loop lib h' rest
           (options @ [\<lparr>opt_label = label, opt_value = dict_get (h' a) ''format_id'' PNone,
                        opt_description = None\<rparr>]))"
| "audio_loop lib h (v # rest) options = Inl AttributeError"

fun video_loop ::
  "'f pylib \<Rightarrow> 'f heap \<Rightarrow> 'f pyval list \<Rightarrow> 'f menu_option list \<Rightarrow> pyerror + ('f heap \<times> 'f menu_option list)" where
  "video_loop lib h [] options = Inr (h, options)"
| "video_loop lib h (PRef a # rest) options =
     (case video_assign lib h a of
        Inl err \<Rightarrow> Inl err
      | Inr h' \<Rightarrow>
          (let label = render_columns lib h' (video_columns (h' a))
           in video_loop lib h' rest
                (options @ [\<lparr>opt_label = label, opt_value = dict_get (h' a) ''format_id'' PNone,
                             opt_description = None\<rparr>])))"
| "video_loop lib h (v # rest) options = Inl AttributeError"

fun index_of :: "('a \<Rightarrow> bool) \<Rightarrow> 'a list \<Rightarrow> nat option" where
  "index_of P [] = None"
| "index_of P (x # xs) = (if P x then Some 0 else map_option Suc (index_of P xs))"

text \<open>The search for the default option; \<open>start\<close> is the index the function begins with.\<close>

definition default_index :: "'f menu_option list \<Rightarrow> string option \<Rightarrow> nat \<Rightarrow> nat" where
  "default_index options dflt start =
     (case dflt of
        None \<Rightarrow> start
      | Some d \<Rightarrow>
          (case index_of (\<lambda>option. opt_value option = PStr d) options of
             None \<Rightarrow> start
           | Some ind \<Rightarrow> ind))"

text \<open>
  \<^verbatim>\<open>pick.pick\<close> shows the menu and returns the option the user confirms; the index
  comes from the user and lies within the options.
\<close>

definition pick_pick ::
  "string \<Rightarrow> 'f menu_option list \<Rightarrow> nat \<Rightarrow> nat option \<Rightarrow> 'f event list \<times> 'f menu_option outcome" where
  "pick_pick title options dflt choice =
     ([Menu title options dflt],
      (case choice of
         None \<Rightarrow> Raised KeyboardInterrupt
       | Some i \<Rightarrow> if i < length options then Ok (options ! i) else Raised KeyboardInterrupt))"

definition pick_yt_audio_format ::
  "'f pylib \<Rightarrow> 'f heap \<Rightarrow> 'f pyval list \<Rightarrow> string option \<Rightarrow> nat option
     \<Rightarrow> 'f event list \<times> ('f heap \<times> 'f pyval) outcome" where
  "pick_yt_audio_format lib h formats dflt choice =
     then_do
       (lift (audio_loop lib h formats
          [\<lparr>opt_label = ''best audio'', opt_value = PStr ''bestaudio'', opt_description = None\<rparr>,
           \<lparr>opt_label = ''no audio'', opt_value = PNone, opt_description = None\<rparr>]))
       (\<lambda>(h', options).
          then_do (pick_pick ''Select audio'' options (default_index options dflt 0) choice)
            (\<lambda>selected. ([], Ok (h', opt_value selected))))"

definition pick_yt_video_format ::
  "'f pylib \<Rightarrow> 'f heap \<Rightarrow> 'f pyval list \<Rightarrow> string option \<Rightarrow> nat option
     \<Rightarrow> 'f event list \<times> ('f heap \<times> 'f pyval) outcome" where
  "pick_yt_video_format lib h formats dflt choice =
     then_do
       (lift (video_loop lib h formats
          [\<lparr>opt_label = ''best video'', opt_value = PStr ''bestvideo'', opt_description = None\<rparr>,
           \<lparr>opt_label = ''no video'', opt_value = PNone, opt_description = None\<rparr>]))
       (\<lambda>(h', options).
          then_do (pick_pick ''Select video'' options (default_index options dflt 0) choice)
            (\<lambda>selected. ([], Ok (h', opt_value selected))))"

definition thumbnail_options :: "'f menu_option list" where
  "thumbnail_options =
     [\<lparr>opt_label = ''best thumbnail'', opt_value = PStr ''best'', opt_description = None\<rparr>,
      \<lparr>opt_label = ''embed thumbnail'', opt_value = PStr ''embed'',
       opt_description = Some ''Supported filetypes for thumbnail embedding are: mp3, mp4''\<rparr>,
      \<lparr>opt_label = ''no thumbnail'', opt_value = PNone, opt_description = None\<rparr>]"

definition pick_yt_thumbnail_format ::
  "'f pyval \<Rightarrow> string option \<Rightarrow> nat option \<Rightarrow> 'f event list \<times> ('f pyval \<times> string list) outcome" where
  "pick_yt_thumbnail_format md dflt choice =
     (let options = (thumbnail_options :: 'f menu_option list)
      in then_do (pick_pick ''Select thumbnail'' options (default_index options dflt 2) choice)
       (\<lambda>selected.
          ([], Ok (opt_value selected,
             (if opt_value selected = PStr ''best'' then [''--write-thumbnail'', ''--convert-thumbnails'', ''jpg'']
              else if opt_value selected = PStr ''embed'' then [''--embed-thumbnail'']
              else [])))))"

section \<open>main\<close>

text \<open>\<^verbatim>\<open>"+".join(...)\<close> of values: every element has to be a string.\<close>

fun str_items :: "'f pyval list \<Rightarrow> pyerror + string list" where
  "str_items [] = Inr []"
| "str_items (PStr s # vs) = (case str_items vs of Inl e \<Rightarrow> Inl e | Inr ss \<Rightarrow> Inr (s # ss))"
| "str_items (v # vs) = Inl TypeError"

text \<open>\<^verbatim>\<open>Path(filename)\<close>: the argument has to be a string.\<close>

fun path_of :: "'f pyval \<Rightarrow> pyerror + ppath" where
  "path_of (PStr s) = Inr (Path s)"
| "path_of v = Inl TypeError"

text \<open>
  Lines 264 to 275 of \<^verbatim>\<open>main\<close>: from the three selections to the arguments of
  \<^verbatim>\<open>ytdlp_download\<close> and the path the download is expected at.
\<close>

record plan =
  audio_only :: bool
  ytdlp_args :: "string list"
  filepath :: ppath
  fmt :: string

definition make_plan ::
  "'f pylib \<Rightarrow> 'f heap \<Rightarrow> ppath \<Rightarrow> 'f pyval \<Rightarrow> 'f pyval \<Rightarrow> string list \<Rightarrow> pyerror + plan" where
  "make_plan lib h fp audio_fmt video_fmt thumbnail_args =
     (let only = (truthy lib h audio_fmt \<and> \<not> truthy lib h video_fmt);
          args = thumbnail_args @
                   (if only then [''-x'', ''--audio-format'', ''mp3'']
                    else [''--merge-output-format'', ''mp4''])
      in (case with_suffix fp (if only then ''.mp3'' else ''.mp4'') of
            Inl err \<Rightarrow> Inl err
          | Inr fp' \<Rightarrow>
              (case str_items (filter (truthy lib h) [audio_fmt, video_fmt]) of
                 Inl err \<Rightarrow> Inl err
               | Inr items \<Rightarrow>
                   Inr \<lparr>audio_only = only, ytdlp_args = args, filepath = fp', fmt = join ''+'' items\<rparr>)))"

text \<open>The end of \<^verbatim>\<open>main\<close>, after \<^verbatim>\<open>ytdlp_download\<close> has returned.\<close>

definition report :: "env \<Rightarrow> ppath \<Rightarrow> 'f pyval \<Rightarrow> 'f event list \<times> unit outcome" where
  "report e fp thumbnail =
     (if \<not> path_exists e (path_str fp) then
        ([Print (Fore_RED @ ''downloaded file not found, expected it here:''), Print (path_str fp)], Ok ())
      else
        then_do
          (if thumbnail \<noteq> PNone then
             then_do (lift (with_suffix fp ''.jpg''))
               (\<lambda>jpg. ([Print (Fore_GREEN @ ''thumbnail stored here:'' @ [CHR 0x0A] @ '' '' @
                            path_str (absolute (Path (outdir e)) jpg))], Ok ()))
           else ([], Ok ()))
          (\<lambda>_. ([Print (Fore_GREEN @ ''download stored here:'' @ [CHR 0x0A] @ '' '' @
                     path_str (absolute (Path (outdir e)) fp)),
                  Input (''press ENTER to exit'' @ [CHR 0x0A])], Ok ())))"

text \<open>Lines 264 to 288 of \<^verbatim>\<open>main\<close>: what follows the three selectors.\<close>

definition download ::
  "'f pylib \<Rightarrow> env \<Rightarrow> 'f heap \<Rightarrow> string \<Rightarrow> ppath \<Rightarrow> 'f pyval \<Rightarrow> 'f pyval \<Rightarrow> 'f pyval \<Rightarrow> string list
     \<Rightarrow> 'f event list \<times> unit outcome" where
  "download lib e h yturl fp audio_fmt video_fmt thumbnail thumbnail_args =
     then_do (lift (make_plan lib h fp audio_fmt video_fmt thumbnail_args)) (\<lambda>p.
     then_do (ytdlp_download yturl (fmt p) (ytdlp_args p)) (\<lambda>_.
     report e (filepath p) thumbnail))"

definition main :: "'f pylib \<Rightarrow> env \<Rightarrow> 'f event list \<times> unit outcome" where
  "main lib e =
     (if \<not> outdir_exists e then
        ([Print (Fore_RED @ ''output directory not found: [edit line 64 to change it]''),
          Print (outdir e)], Ok ())
      else
        then_do ([print_command [''cd'', outdir e], Chdir (outdir e)], Ok ()) (\<lambda>_.
        then_do (check_dependency_path e (ffmpeg_bin CONFIG) ''ffmpeg not found'') (\<lambda>ffmpeg_ok.
        if \<not> ffmpeg_ok then ([], Ok ()) else
        then_do (check_dependency_path e (ytdlp_bin CONFIG) ''yt-dlp not found'') (\<lambda>ytdlp_ok.
        if \<not> ytdlp_ok then ([], Ok ()) else
        then_do ([Input ''YouTube URL: ''], Ok (strip (typed_url e))) (\<lambda>yturl.
        then_do (request_ytdlp_metadata lib e yturl) (\<lambda>(h, fm).
        then_do (lift (obj_get h (metadata fm) ''filename'' PNone)) (\<lambda>filename.
        then_do (lift (path_of filename)) (\<lambda>fp.
        then_do (pick_yt_audio_format lib h (audio fm) (audio_format CONFIG) (audio_choice e)) (\<lambda>(h1, audio_fmt).
        then_do (pick_yt_video_format lib h1 (video fm) (video_format CONFIG) (video_choice e)) (\<lambda>(h2, video_fmt).
        then_do (pick_yt_thumbnail_format (metadata fm) (thumbnail_format CONFIG) (thumbnail_choice e)) (\<lambda>(thumbnail, thumbnail_args).
        download lib e h2 yturl fp audio_fmt video_fmt thumbnail thumbnail_args)))))))))))"

section \<open>An example run\<close>

text \<open>
  The probe reports the file name \<^verbatim>\<open>clip.webm\<close>, the audio format 140, the video format
  137 and no thumbnails. The store holds the probe's dictionary at address 0 and the two
  formats at 1 and 2; neither format gives a file size, a bitrate or a sample rate.
\<close>

definition demo_heap :: "int heap" where
  "demo_heap =
     (\<lambda>_. [])
       (0 := [(''filename'', PStr ''clip.webm''),
              (''formats'', PList [PRef 1, PRef 2]),
              (''thumbnails'', PList [])],
        1 := [(''format_id'', PStr ''140''), (''acodec'', PStr ''mp4a.40.2''),
              (''vcodec'', PStr ''none''), (''audio_ext'', PStr ''m4a'')],
        2 := [(''format_id'', PStr ''137''), (''acodec'', PStr ''none''),
              (''vcodec'', PStr ''avc1.640028''), (''video_ext'', PStr ''mp4''),
              (''width'', PInt 1920), (''height'', PInt 1080), (''fps'', PInt 30)])"

text \<open>
  A library for the examples, with whole numbers as floats: right for the whole numbers
  from 0 to 999, which quantiphy renders without a prefix. The examples hold no string
  that \<^verbatim>\<open>float()\<close> would accept, no list or dictionary that is printed and no float
  outside that range. Its \<^verbatim>\<open>json.loads\<close> answers with the store of the first example.
\<close>

definition demo_lib :: "int pylib" where
  "demo_lib =
     \<lparr>float_of_int = (\<lambda>n. Some n),
      float_of_str = (\<lambda>s. None),
      float_nonzero = (\<lambda>x. x \<noteq> 0),
      float_str = (\<lambda>x. str_int x @ ''.0''),
      container_str = (\<lambda>h v. ''[]''),
      quantity_str = (\<lambda>x u. if u = [] then str_int x else str_int x @ '' '' @ u),
      json_loads = (\<lambda>s. Inr (demo_heap, PRef 0))\<rparr>"

text \<open>
  The outside of the example: both binaries start, the probe exits with 0, the user
  types the address and picks the options at the given indices, and the predicted file
  exists afterwards.
\<close>

definition demo_env :: "nat \<Rightarrow> nat \<Rightarrow> nat \<Rightarrow> env" where
  "demo_env i j k =
     \<lparr>outdir = ''/home/u/Downloads'',
      outdir_exists = True,
      run = (\<lambda>command. Inr (0, ''{}'', [])),
      typed_url = '' https://y.example/v '',
      audio_choice = Some i,
      video_choice = Some j,
      thumbnail_choice = Some k,
      path_exists = (\<lambda>p. True)\<rparr>"

text \<open>
  A probe with odd entries: a format whose id has a leading space, a format with a
  name for an id, a thumbnail whose resolution is the empty string and one with a
  resolution.
\<close>

definition odd_heap :: "int heap" where
  "odd_heap =
     (\<lambda>_. [])
       (0 := [(''filename'', PStr ''clip.webm''),
              (''formats'', PList [PRef 1, PRef 2]),
              (''thumbnails'', PList [PRef 3, PRef 4])],
        1 := [(''format_id'', PStr '' 137''), (''acodec'', PStr ''mp4a.40.2''),
              (''vcodec'', PStr ''avc1.640028'')],
        2 := [(''format_id'', PStr ''hls-audio''), (''acodec'', PStr ''mp4a.40.2''),
              (''vcodec'', PStr ''none'')],
        3 := [(''url'', PStr ''https://y.example/a.jpg''), (''resolution'', PStr [])],
        4 := [(''url'', PStr ''https://y.example/b.jpg''), (''resolution'', PStr ''1280x720'')])"

text \<open>
  A probe with numbers: an audio format with a file size, a bitrate and a sample rate,
  a video format with a file size and a bitrate and without \<^verbatim>\<open>fps\<close>, and a video
  format without a height.
\<close>

definition full_heap :: "int heap" where
  "full_heap =
     (\<lambda>_. [])
       (0 := [(''filename'', PStr ''talk.mkv''),
              (''formats'', PList [PRef 1, PRef 2, PRef 3]),
              (''thumbnails'', PList [])],
        1 := [(''format_id'', PStr ''139''), (''acodec'', PStr ''mp4a.40.5''),
              (''vcodec'', PStr ''none''), (''filesize'', PInt 500), (''abr'', PInt 48),
              (''asr'', PInt 800)],
        2 := [(''format_id'', PStr ''160''), (''acodec'', PStr ''none''),
              (''vcodec'', PStr ''avc1.4d400c''), (''width'', PInt 256), (''height'', PInt 144),
              (''filesize'', PInt 900), (''vbr'', PInt 100)],
        3 := [(''format_id'', PStr ''278''), (''acodec'', PStr ''none''),
              (''vcodec'', PStr ''vp9''), (''width'', PInt 256)])"

text \<open>
  A second outside: the probe (the only command of three words) exits with 1 and an
  error message.
\<close>

definition failing_env :: env where
  "failing_env =
     \<lparr>outdir = ''/home/u/Downloads'',
      outdir_exists = True,
      run = (\<lambda>command. if length command = 3 then Inr (1, [], ''ERROR: Unsupported URL'') else Inr (0, [], [])),
      typed_url = ''nonsense'',
      audio_choice = Some 0,
      video_choice = Some 0,
      thumbnail_choice = Some 2,
      path_exists = (\<lambda>p. True)\<rparr>"

text \<open>
  The columns of a candidate's line as the loop of a selector renders them, after its
  assignments: the label of the candidate's option is their concatenation.
\<close>

definition audio_cells :: "'f pylib \<Rightarrow> 'f heap \<Rightarrow> nat \<Rightarrow> string list" where
  "audio_cells lib h a =
     (let h' = audio_assign lib h a in map (render_column lib h') (audio_columns (h' a)))"

definition video_cells :: "'f pylib \<Rightarrow> 'f heap \<Rightarrow> nat \<Rightarrow> pyerror + string list" where
  "video_cells lib h a =
     (case video_assign lib h a of
        Inl err \<Rightarrow> Inl err
      | Inr h' \<Rightarrow> Inr (map (render_column lib h') (video_columns (h' a))))"

section \<open>Predicates for the statements\<close>

text \<open>
  A format the classifier keeps: a dictionary whose \<^verbatim>\<open>format_id\<close> is a string that is
  all digits once stripped. A selection as the audio and video menus return it:
  \<^verbatim>\<open>None\<close> or a non-empty string.
\<close>

fun selectable :: "'f heap \<Rightarrow> 'f pyval \<Rightarrow> bool" where
  "selectable h (PRef a) =
     (case map_of (h a) ''format_id'' of Some (PStr s) \<Rightarrow> isdigit (strip s) | _ \<Rightarrow> False)"
| "selectable h v = False"

fun is_selection :: "'f pyval \<Rightarrow> bool" where
  "is_selection PNone = True"
| "is_selection (PStr s) = (s \<noteq> [])"
| "is_selection v = False"

text \<open>
  The tests of the classifier's two loops, as predicates on an element of the probe's
  lists.
\<close>

fun audio_candidate :: "'f heap \<Rightarrow> 'f pyval \<Rightarrow> bool" where
  "audio_candidate h (PRef a) =
     (selectable h (PRef a) \<and> dict_get (h a) ''acodec'' (PStr ''none'') \<noteq> PStr ''none'')"
| "audio_candidate h v = False"

fun video_candidate :: "'f heap \<Rightarrow> 'f pyval \<Rightarrow> bool" where
  "video_candidate h (PRef a) =
     (selectable h (PRef a) \<and> dict_get (h a) ''acodec'' (PStr ''none'') = PStr ''none'' \<and>
      dict_get (h a) ''vcodec'' (PStr ''none'') \<noteq> PStr ''none'')"
| "video_candidate h v = False"

fun thumbnail_candidate :: "'f pylib \<Rightarrow> 'f heap \<Rightarrow> 'f pyval \<Rightarrow> bool" where
  "thumbnail_candidate lib h (PRef a) = truthy lib h (dict_get (h a) ''resolution'' PNone)"
| "thumbnail_candidate lib h v = False"

section \<open>Facts about paths\<close>

lemma name_suffix_append:
  assumes "stem \<noteq> []" "ext \<noteq> []" "CHR ''.'' \<notin> set ext"
  shows "name_suffix (stem @ CHR ''.'' # ext) = CHR ''.'' # ext"
proof -
  have tw: "takeWhile (\<lambda>c. c \<noteq> CHR ''.'') (rev ext @ CHR ''.'' # rev stem) = rev ext"
    using assms(3) by (subst takeWhile_append2) auto
  show ?thesis
    using assms(1,2) by (simp add: name_suffix_def tw Let_def)
qed

lemma name_suffix_length: "length (name_suffix nm) < length nm \<or> name_suffix nm = []"
  by (auto simp: name_suffix_def Let_def)

lemma name_suffix_stem:
  assumes "nm \<noteq> []"
  shows "(if name_suffix nm = [] then nm else take (length nm - length (name_suffix nm)) nm) \<noteq> []"
  using assms name_suffix_length [of nm] by auto

lemma with_suffix_ok:
  assumes "path_name p \<noteq> []" "ext \<noteq> []" "CHR ''.'' \<notin> set ext" "CHR ''/'' \<notin> set ext"
  shows "\<exists>p'. with_suffix p (CHR ''.'' # ext) = Inr p' \<and> suffix p' = CHR ''.'' # ext
           \<and> proot p' = proot p \<and> butlast (ptail p') = butlast (ptail p)"
proof -
  define nm where "nm = path_name p"
  define stem where "stem = (if name_suffix nm = [] then nm else take (length nm - length (name_suffix nm)) nm)"
  have stem: "stem \<noteq> []"
    unfolding stem_def using name_suffix_stem assms(1) nm_def by blast
  have ws: "with_suffix p (CHR ''.'' # ext) = Inr (p\<lparr>ptail := butlast (ptail p) @ [stem @ CHR ''.'' # ext]\<rparr>)"
    using assms by (auto simp: with_suffix_def Let_def stem_def nm_def)
  have "suffix (p\<lparr>ptail := butlast (ptail p) @ [stem @ CHR ''.'' # ext]\<rparr>) = CHR ''.'' # ext"
    using name_suffix_append [OF stem assms(2,3)] by (simp add: suffix_def path_name_def)
  with ws show ?thesis by simp
qed

lemma with_suffix_mp4: "path_name p \<noteq> [] \<Longrightarrow> \<exists>p'. with_suffix p ''.mp4'' = Inr p' \<and> suffix p' = ''.mp4''"
  using with_suffix_ok [of p "''mp4''"] by auto

lemma with_suffix_mp3: "path_name p \<noteq> [] \<Longrightarrow> \<exists>p'. with_suffix p ''.mp3'' = Inr p' \<and> suffix p' = ''.mp3''"
  using with_suffix_ok [of p "''mp3''"] by auto

section \<open>Facts about dictionaries and the assignments of the selectors\<close>

lemma map_of_dict_set:
  "map_of (dict_set d k v) k' = (if k' = k then Some v else map_of d k')"
  by (simp add: dict_set_def update_conv')

lemma dict_get_dict_set:
  "dict_get (dict_set d k v) k' dflt = (if k' = k then v else dict_get d k' dflt)"
  by (simp add: dict_get_def map_of_dict_set)

lemma audio_assign_other: "b \<noteq> a \<Longrightarrow> audio_assign lib h a b = h b"
  by (simp add: audio_assign_def Let_def)

lemma audio_assign_map_of:
  "map_of (audio_assign lib h a a) k =
     (if k = ''asr'' then Some (get_quantity lib (dict_get (h a) ''asr'' PNone) ''Hz'' None)
      else if k = ''abr'' then Some (get_quantity lib (dict_get (h a) ''abr'' PNone) [] (Some ''N/A''))
      else if k = ''filesize'' then Some (get_quantity lib (dict_get (h a) ''filesize'' PNone) ''B'' (Some ''N/A''))
      else map_of (h a) k)"
  by (simp add: audio_assign_def Let_def map_of_dict_set dict_get_dict_set)

lemma video_assign_cases:
  "video_assign lib h a =
     (case map_of (h a) ''width'' of
        None \<Rightarrow> Inl (KeyError ''width'')
      | Some w \<Rightarrow>
          (case map_of (h a) ''height'' of
             None \<Rightarrow> Inl (KeyError ''height'')
           | Some hh \<Rightarrow> video_assign lib h a))"
  by (simp add: video_assign_def Let_def map_of_dict_set split: option.splits)

lemma video_assign_Inl:
  "video_assign lib h a = Inl e \<longleftrightarrow>
     (map_of (h a) ''width'' = None \<and> e = KeyError ''width'') \<or>
     (map_of (h a) ''width'' \<noteq> None \<and> map_of (h a) ''height'' = None \<and> e = KeyError ''height'')"
  by (auto simp: video_assign_def Let_def map_of_dict_set split: option.splits)

lemma video_assign_other: "video_assign lib h a = Inr h' \<Longrightarrow> b \<noteq> a \<Longrightarrow> h' b = h b"
  by (auto simp: video_assign_def Let_def split: option.splits)

lemma video_assign_map_of:
  "video_assign lib h a = Inr h' \<Longrightarrow> k \<noteq> ''wxh'' \<Longrightarrow>
   map_of (h' a) k =
     (if k = ''vbr'' then Some (get_quantity lib (dict_get (h a) ''vbr'' PNone) [] None)
      else if k = ''filesize'' then Some (get_quantity lib (dict_get (h a) ''filesize'' PNone) ''B'' (Some ''N/A''))
      else map_of (h a) k)"
  by (auto simp: video_assign_def Let_def map_of_dict_set dict_get_dict_set split: option.splits)

lemma video_assign_wxh:
  "video_assign lib h a = Inr h' \<Longrightarrow> \<exists>s. map_of (h' a) ''wxh'' = Some (PStr s)"
  by (auto simp: video_assign_def Let_def map_of_dict_set dict_get_dict_set split: option.splits)

section \<open>The invocation builder\<close>

lemma download_plan:
  assumes "make_plan lib h fp a v targs = Inr p"
  shows "\<exists>t r. download lib e h yturl fp a v th targs =
           ([print_command ([ytdlp_bin CONFIG, ''-f'', fmt p, yturl] @ ytdlp_args p),
             Popen ([ytdlp_bin CONFIG, ''-f'', fmt p, yturl] @ ytdlp_args p)] @ t, r)"
  using assms by (cases "report e (filepath p) th") (simp add: download_def ytdlp_download_def Let_def)

text \<open>
  Claim C8. When the user picks "no audio" and "no video", nothing rejects the
  combination: \<open>audio_only\<close> is false, the format expression is the empty string, and
  the download is still started, with \<^verbatim>\<open>--merge-output-format mp4\<close> after the thumbnail
  flags. The probe's file name has to have a last component, as \<^verbatim>\<open>with_suffix\<close> asks.
\<close>

theorem C8_both_none:
  assumes "path_name fp \<noteq> []"
  shows "\<exists>fp' t r.
           make_plan lib h fp PNone PNone targs =
             Inr \<lparr>audio_only = False, ytdlp_args = targs @ [''--merge-output-format'', ''mp4''],
                  filepath = fp', fmt = []\<rparr> \<and>
           suffix fp' = ''.mp4'' \<and>
           download lib e h yturl fp PNone PNone th targs =
             ([print_command ([''yt-dlp'', ''-f'', [], yturl] @ targs @ [''--merge-output-format'', ''mp4'']),
               Popen ([''yt-dlp'', ''-f'', [], yturl] @ targs @ [''--merge-output-format'', ''mp4''])] @ t, r)"
proof -
  obtain fp' where fp': "with_suffix fp ''.mp4'' = Inr fp'" "suffix fp' = ''.mp4''"
    using with_suffix_mp4 [OF assms] by blast
  let ?p = "\<lparr>audio_only = False, ytdlp_args = targs @ [''--merge-output-format'', ''mp4''],
             filepath = fp', fmt = []\<rparr>"
  have mp: "make_plan lib h fp PNone PNone targs = Inr ?p"
    using fp'(1) by (simp add: make_plan_def)
  from download_plan [OF mp, of e yturl th] fp'(2) mp show ?thesis
    by (simp add: CONFIG_def)
qed

theorem C8_both_none_witness:
  "path_name (Path ''clip.webm'') \<noteq> [] \<and>
   (\<exists>fp' t r.
      make_plan demo_lib demo_heap (Path ''clip.webm'') PNone PNone [] =
        Inr \<lparr>audio_only = False, ytdlp_args = [] @ [''--merge-output-format'', ''mp4''],
             filepath = fp', fmt = []\<rparr> \<and>
      suffix fp' = ''.mp4'' \<and>
      download demo_lib (demo_env 1 1 2) demo_heap ''https://y.example/v'' (Path ''clip.webm'') PNone PNone PNone [] =
        ([print_command ([''yt-dlp'', ''-f'', [], ''https://y.example/v''] @ [] @ [''--merge-output-format'', ''mp4'']),
          Popen ([''yt-dlp'', ''-f'', [], ''https://y.example/v''] @ [] @ [''--merge-output-format'', ''mp4''])] @ t, r)) \<and>
   Popen [''yt-dlp'', ''-f'', [], ''https://y.example/v'', ''--merge-output-format'', ''mp4'']
     \<in> set (fst (main demo_lib (demo_env 1 1 2)))"
proof -
  have n: "path_name (Path ''clip.webm'') \<noteq> []"
    by (simp add: path_name_def Path_def)
  have m: "Popen [''yt-dlp'', ''-f'', [], ''https://y.example/v'', ''--merge-output-format'', ''mp4'']
     \<in> set (fst (main demo_lib (demo_env 1 1 2)))"
    by code_simp
  from n m C8_both_none [OF n, of demo_lib demo_heap "[]" "demo_env 1 1 2" "''https://y.example/v''" PNone]
  show ?thesis by blast
qed

section \<open>The probe\<close>

text \<open>
  Claim C9. When the probe exits with a status other than zero, \<^verbatim>\<open>request_ytdlp_metadata\<close>
  prints the captured standard error and ends the program: \<^verbatim>\<open>main\<close> runs the probe
  once, shows no menu, starts no download and returns no metadata.
\<close>

theorem C9_probe_failure:
  assumes "outdir_exists e"
    and "run e [''ffmpeg''] = Inr p1"
    and "run e [''yt-dlp''] = Inr p2"
    and "run e [''yt-dlp'', ''-j'', strip (typed_url e)] = Inr (returncode, out, err)"
    and "returncode \<noteq> 0"
  shows "request_ytdlp_metadata lib e (strip (typed_url e)) =
           ([print_command [''yt-dlp'', ''-j'', strip (typed_url e)],
             Run [''yt-dlp'', ''-j'', strip (typed_url e)],
             Print (Fore_RED @ ''Critical error:''), Print err], Exited) \<and>
         main lib e =
           ([print_command [''cd'', outdir e], Chdir (outdir e),
             print_command [''ffmpeg''], Run [''ffmpeg''],
             print_command [''yt-dlp''], Run [''yt-dlp''],
             Input ''YouTube URL: '',
             print_command [''yt-dlp'', ''-j'', strip (typed_url e)],
             Run [''yt-dlp'', ''-j'', strip (typed_url e)],
             Print (Fore_RED @ ''Critical error:''), Print err], Exited)"
proof -
  have req: "request_ytdlp_metadata lib e (strip (typed_url e)) =
           ([print_command [''yt-dlp'', ''-j'', strip (typed_url e)],
             Run [''yt-dlp'', ''-j'', strip (typed_url e)],
             Print (Fore_RED @ ''Critical error:''), Print err], Exited)"
    using assms(4,5) by (simp add: request_ytdlp_metadata_def run_command_def CONFIG_def)
  have d1: "check_dependency_path e ''ffmpeg'' ''ffmpeg not found'' =
              ([print_command [''ffmpeg''], Run [''ffmpeg'']], Ok True)"
    using assms(2) by (simp add: check_dependency_path_def run_command_def)
  have d2: "check_dependency_path e ''yt-dlp'' ''yt-dlp not found'' =
              ([print_command [''yt-dlp''], Run [''yt-dlp'']], Ok True)"
    using assms(3) by (simp add: check_dependency_path_def run_command_def)
  have "main lib e =
           ([print_command [''cd'', outdir e], Chdir (outdir e),
             print_command [''ffmpeg''], Run [''ffmpeg''],
             print_command [''yt-dlp''], Run [''yt-dlp''],
             Input ''YouTube URL: '',
             print_command [''yt-dlp'', ''-j'', strip (typed_url e)],
             Run [''yt-dlp'', ''-j'', strip (typed_url e)],
             Print (Fore_RED @ ''Critical error:''), Print err], Exited)"
    using assms(1) by (simp add: main_def CONFIG_def d1 d2 req)
  with req show ?thesis by simp
qed

lemma strip_nonsense: "strip ''nonsense'' = ''nonsense''"
  by (simp add: strip_def isspace_def py_whitespace_def)

theorem C9_probe_failure_witness:
  "outdir_exists failing_env \<and>
   run failing_env [''yt-dlp'', ''-j'', ''nonsense''] = Inr (1, [], ''ERROR: Unsupported URL'') \<and>
   main demo_lib failing_env =
     ([print_command [''cd'', ''/home/u/Downloads''], Chdir ''/home/u/Downloads'',
       print_command [''ffmpeg''], Run [''ffmpeg''],
       print_command [''yt-dlp''], Run [''yt-dlp''],
       Input ''YouTube URL: '',
       print_command [''yt-dlp'', ''-j'', ''nonsense''],
       Run [''yt-dlp'', ''-j'', ''nonsense''],
       Print (Fore_RED @ ''Critical error:''), Print ''ERROR: Unsupported URL''], Exited)"
proof -
  have a: "outdir_exists failing_env" by (simp add: failing_env_def)
  have b: "run failing_env [''ffmpeg''] = Inr (0, [], [])" by (simp add: failing_env_def)
  have c: "run failing_env [''yt-dlp''] = Inr (0, [], [])" by (simp add: failing_env_def)
  have t: "strip (typed_url failing_env) = ''nonsense''" by (simp add: failing_env_def strip_nonsense)
  have o: "outdir failing_env = ''/home/u/Downloads''" by (simp add: failing_env_def)
  have d: "run failing_env [''yt-dlp'', ''-j'', strip (typed_url failing_env)] = Inr (1, [], ''ERROR: Unsupported URL'')"
    by (simp add: failing_env_def)
  have "(1::int) \<noteq> 0" by simp
  from C9_probe_failure [OF a b c d this, of demo_lib] a d show ?thesis
    by (simp add: t o)
qed

section \<open>What the classifier keeps and what the menus return\<close>

lemma isdigit_strip_nonempty: "isdigit (strip s) \<Longrightarrow> s \<noteq> []"
  by (auto simp: isdigit_def strip_def)

lemma selectable_iff:
  "selectable h v \<longleftrightarrow> (\<exists>a s. v = PRef a \<and> map_of (h a) ''format_id'' = Some (PStr s) \<and> isdigit (strip s))"
  by (cases v) (auto split: option.splits pyval.splits)

lemma selectable_cong:
  "(\<And>b. map_of (h' b) ''format_id'' = map_of (h b) ''format_id'') \<Longrightarrow> selectable h' v = selectable h v"
  by (simp add: selectable_iff)

lemma classify_formats_selectable:
  "classify_formats h xs (au0, vi0) = Inr (au, vi) \<Longrightarrow>
   list_all (selectable h) au0 \<Longrightarrow> list_all (selectable h) vi0 \<Longrightarrow>
   list_all (selectable h) au \<and> list_all (selectable h) vi"
proof (induction xs arbitrary: au0 vi0)
  case Nil
  then show ?case by simp
next
  case (Cons x xs)
  show ?case
  proof (cases x)
    case (PRef a)
    show ?thesis
    proof (cases "map_of (h a) ''format_id''")
      case None
      then have "classify_formats h (x # xs) (au0, vi0) = classify_formats h xs (au0, vi0)"
        using PRef by (simp add: dict_get_def isdigit_def strip_def)
      with Cons show ?thesis by simp
    next
      case (Some v)
      show ?thesis
      proof (cases v)
        case (PStr s)
        have sel: "isdigit (strip s) \<Longrightarrow> selectable h x"
          using PRef Some PStr by simp
        from Cons.prems(1) PRef Some PStr
        consider "classify_formats h xs (au0, vi0) = Inr (au, vi)"
          | "isdigit (strip s)" "classify_formats h xs (au0 @ [x], vi0) = Inr (au, vi)"
          | "isdigit (strip s)" "classify_formats h xs (au0, vi0 @ [x]) = Inr (au, vi)"
          by (auto simp: dict_get_def split: if_splits)
        then show ?thesis
        proof cases
          case 1
          with Cons show ?thesis by simp
        next
          case 2
          with Cons.IH [of "au0 @ [x]" vi0] Cons.prems sel show ?thesis by simp
        next
          case 3
          with Cons.IH [of au0 "vi0 @ [x]"] Cons.prems sel show ?thesis by simp
        qed
      qed (use Cons.prems(1) PRef Some in \<open>simp_all add: dict_get_def\<close>)
    qed
  qed (use Cons.prems(1) in simp_all)
qed

lemma classify_selectable:
  assumes "classify lib h md = Inr fm"
  shows "list_all (selectable h) (audio fm) \<and> list_all (selectable h) (video fm)"
proof -
  from assms obtain xs where "classify_formats h xs ([], []) = Inr (audio fm, video fm)"
    by (auto simp: classify_def split: sum.splits)
  from classify_formats_selectable [OF this] show ?thesis by simp
qed

lemma audio_assign_frame:
  "k \<notin> {''filesize'', ''abr'', ''asr''} \<Longrightarrow> map_of (audio_assign lib h a b) k = map_of (h b) k"
  by (cases "b = a") (simp_all add: audio_assign_map_of audio_assign_other)

lemma video_assign_frame:
  "video_assign lib h a = Inr h' \<Longrightarrow> k \<notin> {''filesize'', ''vbr'', ''wxh''} \<Longrightarrow>
   map_of (h' b) k = map_of (h b) k"
  by (cases "b = a") (simp_all add: video_assign_map_of video_assign_other)

lemma audio_loop_frame:
  "audio_loop lib h fs opts = Inr (h', opts') \<Longrightarrow>
     (k \<notin> {''filesize'', ''abr'', ''asr''} \<longrightarrow> map_of (h' b) k = map_of (h b) k) \<and>
     (PRef b \<notin> set fs \<longrightarrow> h' b = h b)"
proof (induction lib h fs opts rule: audio_loop.induct)
  case (2 lib h a rest options)
  then show ?case
    by (auto simp: Let_def audio_assign_frame audio_assign_other)
qed simp_all

lemma video_loop_frame:
  "video_loop lib h fs opts = Inr (h', opts') \<Longrightarrow>
     (k \<notin> {''filesize'', ''vbr'', ''wxh''} \<longrightarrow> map_of (h' b) k = map_of (h b) k) \<and>
     (PRef b \<notin> set fs \<longrightarrow> h' b = h b)"
proof (induction lib h fs opts rule: video_loop.induct)
  case (2 lib h a rest options)
  from "2.prems" obtain h1 where h1: "video_assign lib h a = Inr h1"
    by (auto split: sum.splits)
  with "2.prems" "2.IH" [OF h1 refl] have
    ih: "(k \<notin> {''filesize'', ''vbr'', ''wxh''} \<longrightarrow> map_of (h' b) k = map_of (h1 b) k) \<and>
         (PRef b \<notin> set rest \<longrightarrow> h' b = h1 b)"
    by (simp add: Let_def)
  show ?case
    using ih video_assign_frame [OF h1, of k b] video_assign_other [OF h1, of b] by auto
qed simp_all

lemma audio_loop_values:
  "audio_loop lib h fs opts = Inr (h', opts') \<Longrightarrow>
   list_all (selectable h) fs \<Longrightarrow> list_all (\<lambda>option. is_selection (opt_value option)) opts \<Longrightarrow>
   list_all (\<lambda>option. is_selection (opt_value option)) opts'"
proof (induction lib h fs opts rule: audio_loop.induct)
  case (2 lib h a rest options)
  let ?h = "audio_assign lib h a"
  have fid: "\<And>b. map_of (?h b) ''format_id'' = map_of (h b) ''format_id''"
    by (rule audio_assign_frame) simp
  from "2.prems"(2) obtain s where s: "map_of (h a) ''format_id'' = Some (PStr s)" "isdigit (strip s)"
    by (auto simp: selectable_iff)
  have v: "is_selection (dict_get (?h a) ''format_id'' PNone)"
    using s isdigit_strip_nonempty by (simp add: dict_get_def fid)
  have rest: "list_all (selectable ?h) rest"
    using "2.prems"(2) selectable_cong [of ?h h, OF fid] by (simp add: list_all_iff)
  from "2.prems"(1) "2.IH" [OF refl refl _ rest] v "2.prems"(3) show ?case
    by (simp add: Let_def)
qed simp_all

lemma video_loop_values:
  "video_loop lib h fs opts = Inr (h', opts') \<Longrightarrow>
   list_all (selectable h) fs \<Longrightarrow> list_all (\<lambda>option. is_selection (opt_value option)) opts \<Longrightarrow>
   list_all (\<lambda>option. is_selection (opt_value option)) opts'"
proof (induction lib h fs opts rule: video_loop.induct)
  case (2 lib h a rest options)
  from "2.prems"(1) obtain h1 where h1: "video_assign lib h a = Inr h1"
    by (auto split: sum.splits)
  have fid: "\<And>b. map_of (h1 b) ''format_id'' = map_of (h b) ''format_id''"
    by (rule video_assign_frame [OF h1]) simp
  from "2.prems"(2) obtain s where s: "map_of (h a) ''format_id'' = Some (PStr s)" "isdigit (strip s)"
    by (auto simp: selectable_iff)
  have v: "is_selection (dict_get (h1 a) ''format_id'' PNone)"
    using s isdigit_strip_nonempty by (simp add: dict_get_def fid)
  have rest: "list_all (selectable h1) rest"
    using "2.prems"(2) selectable_cong [of h1 h, OF fid] by (simp add: list_all_iff)
  from "2.prems"(1) h1 "2.IH" [OF h1 refl _ rest] v "2.prems"(3) show ?case
    by (simp add: Let_def)
qed simp_all

lemma pick_pick_member:
  "pick_pick title options dflt choice = (t, Ok selected) \<Longrightarrow> selected \<in> set options"
  by (auto simp: pick_pick_def split: option.splits if_splits)

lemma pick_yt_audio_format_Ok:
  assumes "pick_yt_audio_format lib h fs dflt choice = (t, Ok (h', v))"
  shows "\<exists>options selected.
           audio_loop lib h fs
             [\<lparr>opt_label = ''best audio'', opt_value = PStr ''bestaudio'', opt_description = None\<rparr>,
              \<lparr>opt_label = ''no audio'', opt_value = PNone, opt_description = None\<rparr>] = Inr (h', options) \<and>
           selected \<in> set options \<and> v = opt_value selected"
proof -
  let ?init = "[\<lparr>opt_label = ''best audio'', opt_value = PStr ''bestaudio'', opt_description = None\<rparr>,
              \<lparr>opt_label = ''no audio'', opt_value = PNone, opt_description = None\<rparr>]"
  show ?thesis
  proof (cases "audio_loop lib h fs ?init")
    case (Inl e)
    with assms show ?thesis by (simp add: pick_yt_audio_format_def)
  next
    case (Inr r)
    obtain h1 options where r: "r = (h1, options)" by (cases r)
    obtain t1 r1 where pp: "pick_pick ''Select audio'' options (default_index options dflt 0) choice = (t1, r1)"
      by (cases "pick_pick ''Select audio'' options (default_index options dflt 0) choice")
    from assms Inr r pp obtain selected where "r1 = Ok selected" "h' = h1" "v = opt_value selected"
      by (cases r1) (auto simp: pick_yt_audio_format_def)
    with pp pick_pick_member Inr r show ?thesis by blast
  qed
qed

lemma pick_yt_video_format_Ok:
  assumes "pick_yt_video_format lib h fs dflt choice = (t, Ok (h', v))"
  shows "\<exists>options selected.
           video_loop lib h fs
             [\<lparr>opt_label = ''best video'', opt_value = PStr ''bestvideo'', opt_description = None\<rparr>,
              \<lparr>opt_label = ''no video'', opt_value = PNone, opt_description = None\<rparr>] = Inr (h', options) \<and>
           selected \<in> set options \<and> v = opt_value selected"
proof -
  let ?init = "[\<lparr>opt_label = ''best video'', opt_value = PStr ''bestvideo'', opt_description = None\<rparr>,
              \<lparr>opt_label = ''no video'', opt_value = PNone, opt_description = None\<rparr>]"
  show ?thesis
  proof (cases "video_loop lib h fs ?init")
    case (Inl e)
    with assms show ?thesis by (simp add: pick_yt_video_format_def)
  next
    case (Inr r)
    obtain h1 options where r: "r = (h1, options)" by (cases r)
    obtain t1 r1 where pp: "pick_pick ''Select video'' options (default_index options dflt 0) choice = (t1, r1)"
      by (cases "pick_pick ''Select video'' options (default_index options dflt 0) choice")
    from assms Inr r pp obtain selected where "r1 = Ok selected" "h' = h1" "v = opt_value selected"
      by (cases r1) (auto simp: pick_yt_video_format_def)
    with pp pick_pick_member Inr r show ?thesis by blast
  qed
qed

lemma audio_selection:
  assumes "pick_yt_audio_format lib h fs dflt choice = (t, Ok (h', v))" "list_all (selectable h) fs"
  shows "is_selection v"
proof -
  from pick_yt_audio_format_Ok [OF assms(1)] obtain options selected where
    l: "audio_loop lib h fs
             [\<lparr>opt_label = ''best audio'', opt_value = PStr ''bestaudio'', opt_description = None\<rparr>,
              \<lparr>opt_label = ''no audio'', opt_value = PNone, opt_description = None\<rparr>] = Inr (h', options)"
    and s: "selected \<in> set options" "v = opt_value selected" by blast
  from audio_loop_values [OF l assms(2)] s show ?thesis by (simp add: list_all_iff)
qed

lemma video_selection:
  assumes "pick_yt_video_format lib h fs dflt choice = (t, Ok (h', v))" "list_all (selectable h) fs"
  shows "is_selection v"
proof -
  from pick_yt_video_format_Ok [OF assms(1)] obtain options selected where
    l: "video_loop lib h fs
             [\<lparr>opt_label = ''best video'', opt_value = PStr ''bestvideo'', opt_description = None\<rparr>,
              \<lparr>opt_label = ''no video'', opt_value = PNone, opt_description = None\<rparr>] = Inr (h', options)"
    and s: "selected \<in> set options" "v = opt_value selected" by blast
  from video_loop_values [OF l assms(2)] s show ?thesis by (simp add: list_all_iff)
qed

lemma is_selection_iff: "is_selection v \<longleftrightarrow> v = PNone \<or> (\<exists>s. v = PStr s \<and> s \<noteq> [])"
  by (cases v) auto

lemma make_plan_selections:
  assumes "is_selection a" "is_selection v" "path_name fp \<noteq> []"
  shows "\<exists>p. make_plan lib h fp a v targs = Inr p \<and>
           audio_only p = (a \<noteq> PNone \<and> v = PNone) \<and>
           ytdlp_args p = targs @ (if audio_only p then [''-x'', ''--audio-format'', ''mp3'']
                                   else [''--merge-output-format'', ''mp4'']) \<and>
           suffix (filepath p) = (if audio_only p then ''.mp3'' else ''.mp4'')"
proof -
  obtain fp3 where fp3: "with_suffix fp ''.mp3'' = Inr fp3" "suffix fp3 = ''.mp3''"
    using with_suffix_mp3 [OF assms(3)] by blast
  obtain fp4 where fp4: "with_suffix fp ''.mp4'' = Inr fp4" "suffix fp4 = ''.mp4''"
    using with_suffix_mp4 [OF assms(3)] by blast
  from assms(1,2) consider
      "a = PNone" "v = PNone"
    | s where "a = PStr s" "s \<noteq> []" "v = PNone"
    | s where "a = PNone" "v = PStr s" "s \<noteq> []"
    | s s' where "a = PStr s" "s \<noteq> []" "v = PStr s'" "s' \<noteq> []"
    by (auto simp: is_selection_iff)
  then show ?thesis
    using fp3 fp4 by cases (simp_all add: make_plan_def)
qed

text \<open>
  Claim C2. For the selections the audio and video menus return on the classifier's
  lists, \<open>audio_only\<close> holds exactly when the audio selection is not \<^verbatim>\<open>None\<close> and the
  video selection is \<^verbatim>\<open>None\<close>; then the flags end with \<^verbatim>\<open>-x --audio-format mp3\<close> and
  the predicted path has the suffix \<^verbatim>\<open>.mp3\<close>, otherwise they end with
  \<^verbatim>\<open>--merge-output-format mp4\<close> and the suffix is \<^verbatim>\<open>.mp4\<close>.
\<close>

theorem C2_audio_only:
  assumes "classify lib h md = Inr fm"
    and "pick_yt_audio_format lib h (audio fm) d1 c1 = (t1, Ok (h1, a))"
    and "pick_yt_video_format lib h1 (video fm) d2 c2 = (t2, Ok (h2, v))"
    and "path_name fp \<noteq> []"
  shows "\<exists>p. make_plan lib h2 fp a v targs = Inr p \<and>
           audio_only p = (a \<noteq> PNone \<and> v = PNone) \<and>
           ytdlp_args p = targs @ (if audio_only p then [''-x'', ''--audio-format'', ''mp3'']
                                   else [''--merge-output-format'', ''mp4'']) \<and>
           suffix (filepath p) = (if audio_only p then ''.mp3'' else ''.mp4'')"
proof -
  note sel = classify_selectable [OF assms(1)]
  have a: "is_selection a"
    using audio_selection [OF assms(2)] sel by simp
  from pick_yt_audio_format_Ok [OF assms(2)] obtain options where
    "audio_loop lib h (audio fm)
             [\<lparr>opt_label = ''best audio'', opt_value = PStr ''bestaudio'', opt_description = None\<rparr>,
              \<lparr>opt_label = ''no audio'', opt_value = PNone, opt_description = None\<rparr>] = Inr (h1, options)"
    by blast
  from audio_loop_frame [OF this, of "''format_id''"]
  have "\<And>b. map_of (h1 b) ''format_id'' = map_of (h b) ''format_id''" by simp
  from selectable_cong [of h1 h, OF this] sel have "list_all (selectable h1) (video fm)"
    by (simp add: list_all_iff)
  from video_selection [OF assms(3) this] have v: "is_selection v" .
  from make_plan_selections [OF a v assms(4)] show ?thesis .
qed

lemma demo_classify:
  "classify demo_lib demo_heap (PRef 0) = Inr \<lparr>audio = [PRef 1], video = [PRef 2], image = [], metadata = PRef 0\<rparr>"
  by code_simp

lemma demo_pick_audio:
  "pick_yt_audio_format demo_lib demo_heap [PRef 1] (Some ''best'') (Some 2) =
     (fst (pick_yt_audio_format demo_lib demo_heap [PRef 1] (Some ''best'') (Some 2)),
      Ok (audio_assign demo_lib demo_heap 1, PStr ''140''))"
  by (simp add: pick_yt_audio_format_def pick_pick_def Let_def dict_get_def audio_assign_map_of demo_heap_def)

lemma demo_path_name: "path_name (Path ''clip.webm'') \<noteq> []"
  by (simp add: path_name_def Path_def)

lemma demo_pick_video:
  "\<exists>t h2. pick_yt_video_format demo_lib (audio_assign demo_lib demo_heap 1) [PRef 2] (Some ''best'') (Some 1) =
     (t, Ok (h2, PNone))"
  by (simp add: pick_yt_video_format_def pick_pick_def Let_def video_assign_def audio_assign_other
      demo_heap_def map_of_dict_set)

theorem C2_audio_only_witness:
  "\<exists>fm t1 h1 a t2 h2 v.
     classify demo_lib demo_heap (PRef 0) = Inr fm \<and>
     pick_yt_audio_format demo_lib demo_heap (audio fm) (Some ''best'') (Some 2) = (t1, Ok (h1, a)) \<and>
     pick_yt_video_format demo_lib h1 (video fm) (Some ''best'') (Some 1) = (t2, Ok (h2, v)) \<and>
     path_name (Path ''clip.webm'') \<noteq> [] \<and>
     a = PStr ''140'' \<and> v = PNone \<and>
     (\<exists>p. make_plan demo_lib h2 (Path ''clip.webm'') a v [] = Inr p \<and>
        audio_only p = (a \<noteq> PNone \<and> v = PNone) \<and>
        ytdlp_args p = [] @ (if audio_only p then [''-x'', ''--audio-format'', ''mp3'']
                             else [''--merge-output-format'', ''mp4'']) \<and>
        suffix (filepath p) = (if audio_only p then ''.mp3'' else ''.mp4''))"
proof -
  let ?fm = "\<lparr>audio = [PRef 1], video = [PRef 2], image = [], metadata = PRef 0\<rparr> :: int formats"
  have c: "classify demo_lib demo_heap (PRef 0) = Inr ?fm" by (rule demo_classify)
  obtain t1 where a: "pick_yt_audio_format demo_lib demo_heap (audio ?fm) (Some ''best'') (Some 2) =
      (t1, Ok (audio_assign demo_lib demo_heap 1, PStr ''140''))"
    using demo_pick_audio by simp
  obtain t2 h2 where v: "pick_yt_video_format demo_lib (audio_assign demo_lib demo_heap 1) (video ?fm)
      (Some ''best'') (Some 1) = (t2, Ok (h2, PNone))"
    using demo_pick_video by auto
  from C2_audio_only [OF c a v demo_path_name, of "[]"] c a v demo_path_name show ?thesis
    by blast
qed

text \<open>
  Claim C1, as the program has it. For the audio selection \<^verbatim>\<open>140\<close> and the video
  selection \<^verbatim>\<open>137\<close> the format expression given to the download is \<^verbatim>\<open>140+137\<close>: the
  audio id first, then the video id, joined with a plus sign. \<open>audio_only\<close> is false, the
  flags end with \<^verbatim>\<open>--merge-output-format mp4\<close> and the predicted path has the suffix
  \<^verbatim>\<open>.mp4\<close>.
\<close>

theorem C1_join_order:
  assumes "path_name fp \<noteq> []"
  shows "\<exists>fp' t r.
           make_plan lib h fp (PStr ''140'') (PStr ''137'') targs =
             Inr \<lparr>audio_only = False, ytdlp_args = targs @ [''--merge-output-format'', ''mp4''],
                  filepath = fp', fmt = ''140+137''\<rparr> \<and>
           suffix fp' = ''.mp4'' \<and>
           download lib e h yturl fp (PStr ''140'') (PStr ''137'') th targs =
             ([print_command ([''yt-dlp'', ''-f'', ''140+137'', yturl] @ targs @ [''--merge-output-format'', ''mp4'']),
               Popen ([''yt-dlp'', ''-f'', ''140+137'', yturl] @ targs @ [''--merge-output-format'', ''mp4''])] @ t, r)"
proof -
  obtain fp' where fp': "with_suffix fp ''.mp4'' = Inr fp'" "suffix fp' = ''.mp4''"
    using with_suffix_mp4 [OF assms] by blast
  let ?p = "\<lparr>audio_only = False, ytdlp_args = targs @ [''--merge-output-format'', ''mp4''],
             filepath = fp', fmt = ''140+137''\<rparr>"
  have mp: "make_plan lib h fp (PStr ''140'') (PStr ''137'') targs = Inr ?p"
    using fp'(1) by (simp add: make_plan_def)
  from download_plan [OF mp, of e yturl th] fp'(2) mp show ?thesis
    by (simp add: CONFIG_def)
qed

theorem C1_join_order_witness:
  "path_name (Path ''clip.webm'') \<noteq> [] \<and>
   (\<exists>fp' t r.
      make_plan demo_lib demo_heap (Path ''clip.webm'') (PStr ''140'') (PStr ''137'') [] =
        Inr \<lparr>audio_only = False, ytdlp_args = [] @ [''--merge-output-format'', ''mp4''],
             filepath = fp', fmt = ''140+137''\<rparr> \<and>
      suffix fp' = ''.mp4'' \<and>
      download demo_lib (demo_env 2 2 2) demo_heap ''https://y.example/v'' (Path ''clip.webm'')
          (PStr ''140'') (PStr ''137'') PNone [] =
        ([print_command ([''yt-dlp'', ''-f'', ''140+137'', ''https://y.example/v''] @ [] @ [''--merge-output-format'', ''mp4'']),
          Popen ([''yt-dlp'', ''-f'', ''140+137'', ''https://y.example/v''] @ [] @ [''--merge-output-format'', ''mp4''])] @ t, r))"
  using demo_path_name
    C1_join_order [OF demo_path_name, of demo_lib demo_heap "[]" "demo_env 2 2 2" "''https://y.example/v''" PNone]
  by blast

text \<open>
  In the example run with the audio format 140 and the video format 137 picked, the
  download is started with \<^verbatim>\<open>-f 140+137\<close> and not with \<^verbatim>\<open>-f 137+140\<close>.
\<close>

theorem C1_counterexample:
  "Popen [''yt-dlp'', ''-f'', ''140+137'', ''https://y.example/v'', ''--merge-output-format'', ''mp4'']
     \<in> set (fst (main demo_lib (demo_env 2 2 2))) \<and>
   Popen [''yt-dlp'', ''-f'', ''137+140'', ''https://y.example/v'', ''--merge-output-format'', ''mp4'']
     \<notin> set (fst (main demo_lib (demo_env 2 2 2))) \<and>
   map_sum id fmt (make_plan demo_lib demo_heap (Path ''clip.webm'') (PStr ''140'') (PStr ''137'') [])
     \<noteq> Inr ''137+140''"
  by code_simp

section \<open>What the selectors change in the store\<close>

lemma audio_assign_local: "h' a = h a \<Longrightarrow> audio_assign lib h' a a = audio_assign lib h a a"
  by (simp add: audio_assign_def Let_def)

lemma audio_loop_sets:
  "audio_loop lib h fs opts = Inr (h', opts') \<Longrightarrow> distinct fs \<Longrightarrow> PRef b \<in> set fs \<Longrightarrow>
   h' b = audio_assign lib h b b"
proof (induction lib h fs opts rule: audio_loop.induct)
  case (2 lib h a rest options)
  let ?h1 = "audio_assign lib h a"
  from "2.prems"(1) obtain o1 where l: "audio_loop lib ?h1 rest o1 = Inr (h', opts')"
    by (simp add: Let_def)
  show ?case
  proof (cases "b = a")
    case True
    with "2.prems"(2) have "PRef b \<notin> set rest" by simp
    with audio_loop_frame [OF l, of "''format_id''" b] True show ?thesis by simp
  next
    case False
    with "2.prems"(2,3) have "distinct rest" "PRef b \<in> set rest" by simp_all
    with "2.IH" [OF refl refl] "2.prems"(1) have "h' b = audio_assign lib ?h1 b b"
      by (simp add: Let_def)
    also have "\<dots> = audio_assign lib h b b"
      using False by (intro audio_assign_local) (simp add: audio_assign_other)
    finally show ?thesis .
  qed
qed simp_all

lemma video_loop_sets:
  "video_loop lib h fs opts = Inr (h', opts') \<Longrightarrow> distinct fs \<Longrightarrow> PRef b \<in> set fs \<Longrightarrow>
   \<exists>hx hy. hx b = h b \<and> video_assign lib hx b = Inr hy \<and> h' b = hy b"
proof (induction lib h fs opts rule: video_loop.induct)
  case (2 lib h a rest options)
  from "2.prems"(1) obtain h1 where h1: "video_assign lib h a = Inr h1"
    by (auto split: sum.splits)
  with "2.prems"(1) obtain o1 where l: "video_loop lib h1 rest o1 = Inr (h', opts')"
    by (simp add: Let_def)
  show ?case
  proof (cases "b = a")
    case True
    with "2.prems"(2) have "PRef b \<notin> set rest" by simp
    with video_loop_frame [OF l, of "''format_id''" b] have "h' b = h1 b" by simp
    with h1 True show ?thesis by blast
  next
    case False
    with "2.prems"(2,3) have "distinct rest" "PRef b \<in> set rest" by simp_all
    with "2.IH" [OF h1 refl] "2.prems"(1) h1 obtain hx hy where
      "hx b = h1 b" "video_assign lib hx b = Inr hy" "h' b = hy b"
      by (auto simp: Let_def)
    moreover have "h1 b = h b"
      using video_assign_other [OF h1 False] .
    ultimately show ?thesis by auto
  qed
qed simp_all

lemma video_assign_values:
  assumes "video_assign lib hx b = Inr hy"
  shows "map_of (hy b) ''filesize'' =
           Some (get_quantity lib (dict_get (hx b) ''filesize'' PNone) ''B'' (Some ''N/A'')) \<and>
         map_of (hy b) ''vbr'' = Some (get_quantity lib (dict_get (hx b) ''vbr'' PNone) [] None) \<and>
         (\<exists>hz w ht. map_of (hx b) ''width'' = Some w \<and> map_of (hx b) ''height'' = Some ht \<and>
            map_of (hy b) ''wxh'' = Some (PStr (py_str lib hz w @ ''x'' @ py_str lib hz ht)))"
proof -
  have "\<exists>hz w ht. map_of (hx b) ''width'' = Some w \<and> map_of (hx b) ''height'' = Some ht \<and>
            map_of (hy b) ''wxh'' = Some (PStr (py_str lib hz w @ ''x'' @ py_str lib hz ht))"
    using assms by (auto simp: video_assign_def Let_def map_of_dict_set split: option.splits)
  with video_assign_map_of [OF assms, of "''filesize''"] video_assign_map_of [OF assms, of "''vbr''"]
  show ?thesis by simp
qed

text \<open>
  Claim C3, as the program has it. The audio selector overwrites \<^verbatim>\<open>filesize\<close>,
  \<^verbatim>\<open>abr\<close> and \<^verbatim>\<open>asr\<close> in the dictionary of each of its candidates with what
  \<^verbatim>\<open>get_quantity\<close> returns for the value the probe gave, and the video selector
  overwrites \<^verbatim>\<open>filesize\<close> and \<^verbatim>\<open>vbr\<close> in the same way and sets \<^verbatim>\<open>wxh\<close> to the text of
  width and height; these are the dictionaries the probe's \<^verbatim>\<open>formats\<close> list holds.
  Every other key of a candidate and every dictionary that is no candidate (the probe's
  own dictionary, the thumbnails, the formats the classifier dropped) is as the probe
  gave it. The values are stated for lists without repetition, as the classifier yields
  them from a probe list without repetition (\<open>classify_lists_distinct\<close>). The thumbnail
  selector has no access to the store.
\<close>

theorem C3_selectors_frame:
  assumes "pick_yt_audio_format lib h au d1 c1 = (t1, Ok (h1, a))"
    and "pick_yt_video_format lib h1 vi d2 c2 = (t2, Ok (h2, v))"
  shows "(PRef b \<notin> set au \<and> PRef b \<notin> set vi \<longrightarrow> h2 b = h b) \<and>
         (PRef b \<notin> set vi \<and> k \<notin> {''filesize'', ''abr'', ''asr''} \<longrightarrow> map_of (h2 b) k = map_of (h b) k) \<and>
         (PRef b \<notin> set au \<and> k \<notin> {''filesize'', ''vbr'', ''wxh''} \<longrightarrow> map_of (h2 b) k = map_of (h b) k) \<and>
         (k \<notin> {''filesize'', ''abr'', ''asr'', ''vbr'', ''wxh''} \<longrightarrow> map_of (h2 b) k = map_of (h b) k) \<and>
         (distinct au \<and> PRef b \<in> set au \<and> PRef b \<notin> set vi \<longrightarrow>
            map_of (h2 b) ''filesize'' =
              Some (get_quantity lib (dict_get (h b) ''filesize'' PNone) ''B'' (Some ''N/A'')) \<and>
            map_of (h2 b) ''abr'' =
              Some (get_quantity lib (dict_get (h b) ''abr'' PNone) [] (Some ''N/A'')) \<and>
            map_of (h2 b) ''asr'' =
              Some (get_quantity lib (dict_get (h b) ''asr'' PNone) ''Hz'' None)) \<and>
         (distinct vi \<and> PRef b \<in> set vi \<and> PRef b \<notin> set au \<longrightarrow>
            map_of (h2 b) ''filesize'' =
              Some (get_quantity lib (dict_get (h b) ''filesize'' PNone) ''B'' (Some ''N/A'')) \<and>
            map_of (h2 b) ''vbr'' =
              Some (get_quantity lib (dict_get (h b) ''vbr'' PNone) [] None) \<and>
            (\<exists>hz w ht. map_of (h b) ''width'' = Some w \<and> map_of (h b) ''height'' = Some ht \<and>
               map_of (h2 b) ''wxh'' = Some (PStr (py_str lib hz w @ ''x'' @ py_str lib hz ht))))"
proof -
  from pick_yt_audio_format_Ok [OF assms(1)] obtain o1 where
    la: "audio_loop lib h au
             [\<lparr>opt_label = ''best audio'', opt_value = PStr ''bestaudio'', opt_description = None\<rparr>,
              \<lparr>opt_label = ''no audio'', opt_value = PNone, opt_description = None\<rparr>] = Inr (h1, o1)"
    by blast
  note fa = audio_loop_frame [OF la, of k b]
  from pick_yt_video_format_Ok [OF assms(2)] obtain o2 where
    lv: "video_loop lib h1 vi
             [\<lparr>opt_label = ''best video'', opt_value = PStr ''bestvideo'', opt_description = None\<rparr>,
              \<lparr>opt_label = ''no video'', opt_value = PNone, opt_description = None\<rparr>] = Inr (h2, o2)"
    by blast
  note fv = video_loop_frame [OF lv, of k b]
  have frame: "(PRef b \<notin> set au \<and> PRef b \<notin> set vi \<longrightarrow> h2 b = h b) \<and>
         (PRef b \<notin> set vi \<and> k \<notin> {''filesize'', ''abr'', ''asr''} \<longrightarrow> map_of (h2 b) k = map_of (h b) k) \<and>
         (PRef b \<notin> set au \<and> k \<notin> {''filesize'', ''vbr'', ''wxh''} \<longrightarrow> map_of (h2 b) k = map_of (h b) k) \<and>
         (k \<notin> {''filesize'', ''abr'', ''asr'', ''vbr'', ''wxh''} \<longrightarrow> map_of (h2 b) k = map_of (h b) k)"
    using fa fv by auto
  have audio: "map_of (h2 b) ''filesize'' =
              Some (get_quantity lib (dict_get (h b) ''filesize'' PNone) ''B'' (Some ''N/A'')) \<and>
            map_of (h2 b) ''abr'' =
              Some (get_quantity lib (dict_get (h b) ''abr'' PNone) [] (Some ''N/A'')) \<and>
            map_of (h2 b) ''asr'' =
              Some (get_quantity lib (dict_get (h b) ''asr'' PNone) ''Hz'' None)"
    if "distinct au" "PRef b \<in> set au" "PRef b \<notin> set vi"
  proof -
    have "h2 b = h1 b"
      using video_loop_frame [OF lv, of "''format_id''" b] that(3) by simp
    also have "h1 b = audio_assign lib h b b"
      using audio_loop_sets [OF la that(1,2)] .
    finally show ?thesis by (simp add: audio_assign_map_of)
  qed
  have video: "map_of (h2 b) ''filesize'' =
              Some (get_quantity lib (dict_get (h b) ''filesize'' PNone) ''B'' (Some ''N/A'')) \<and>
            map_of (h2 b) ''vbr'' =
              Some (get_quantity lib (dict_get (h b) ''vbr'' PNone) [] None) \<and>
            (\<exists>hz w ht. map_of (h b) ''width'' = Some w \<and> map_of (h b) ''height'' = Some ht \<and>
               map_of (h2 b) ''wxh'' = Some (PStr (py_str lib hz w @ ''x'' @ py_str lib hz ht)))"
    if "distinct vi" "PRef b \<in> set vi" "PRef b \<notin> set au"
  proof -
    have hb: "h1 b = h b"
      using audio_loop_frame [OF la, of "''format_id''" b] that(3) by simp
    from video_loop_sets [OF lv that(1,2)] obtain hx hy where
      x: "hx b = h1 b" "video_assign lib hx b = Inr hy" "h2 b = hy b" by blast
    from video_assign_values [OF x(2)] x(1,3) hb show ?thesis by simp
  qed
  from frame audio video show ?thesis by blast
qed

text \<open>
  In the example the audio format at address 1, an element of the probe's \<^verbatim>\<open>formats\<close>
  list, has no \<^verbatim>\<open>filesize\<close>; after the audio selector it has one, the string \<^verbatim>\<open>N/A\<close>.
\<close>

theorem C3_counterexample:
  "map_of (demo_heap 0) ''formats'' = Some (PList [PRef 1, PRef 2]) \<and>
   map_of (demo_heap 1) ''filesize'' = None \<and>
   (case snd (pick_yt_audio_format demo_lib demo_heap [PRef 1] (Some ''best'') (Some 2)) of
      Ok (h1, a) \<Rightarrow> map_of (h1 1) ''filesize''
    | _ \<Rightarrow> None) = Some (PStr ''N/A'') \<and>
   (case snd (pick_yt_audio_format demo_lib demo_heap [PRef 1] (Some ''best'') (Some 2)) of
      Ok (h1, a) \<Rightarrow> h1 1 \<noteq> demo_heap 1
    | _ \<Rightarrow> False)"
  by code_simp

theorem C3_selectors_frame_witness:
  "\<exists>t1 h1 a t2 h2 v.
     pick_yt_audio_format demo_lib demo_heap [PRef 1] (Some ''best'') (Some 2) = (t1, Ok (h1, a)) \<and>
     pick_yt_video_format demo_lib h1 [PRef 2] (Some ''best'') (Some 1) = (t2, Ok (h2, v)) \<and>
     PRef 0 \<notin> set [PRef 1 :: int pyval] \<and> PRef 0 \<notin> set [PRef 2 :: int pyval] \<and>
     h2 0 = demo_heap 0 \<and>
     map_of (h2 1) ''format_id'' = map_of (demo_heap 1) ''format_id'' \<and>
     distinct [PRef 1 :: int pyval] \<and> PRef 1 \<in> set [PRef 1 :: int pyval] \<and> PRef 1 \<notin> set [PRef 2 :: int pyval] \<and>
     map_of (demo_heap 1) ''filesize'' = None \<and>
     map_of (h2 1) ''filesize'' = Some (PStr ''N/A'') \<and>
     map_of (h2 1) ''abr'' = Some (PStr ''N/A'') \<and>
     distinct [PRef 2 :: int pyval] \<and> PRef 2 \<in> set [PRef 2 :: int pyval] \<and> PRef 2 \<notin> set [PRef 1 :: int pyval] \<and>
     map_of (h2 2) ''filesize'' = Some (PStr ''N/A'') \<and>
     map_of (demo_heap 2) ''wxh'' = None \<and>
     map_of (h2 2) ''wxh'' = Some (PStr ''1920x1080'')"
proof -
  obtain t1 where a: "pick_yt_audio_format demo_lib demo_heap [PRef 1] (Some ''best'') (Some 2) =
      (t1, Ok (audio_assign demo_lib demo_heap 1, PStr ''140''))"
    using demo_pick_audio by simp
  obtain t2 h2 where v: "pick_yt_video_format demo_lib (audio_assign demo_lib demo_heap 1) [PRef 2]
      (Some ''best'') (Some 1) = (t2, Ok (h2, PNone))"
    using demo_pick_video by auto
  note f0 = C3_selectors_frame [OF a v, of 0 "''format_id''"]
  note f1 = C3_selectors_frame [OF a v, of 1 "''format_id''"]
  note f2 = C3_selectors_frame [OF a v, of 2 "''format_id''"]
  have g: "get_quantity demo_lib (dict_get (demo_heap 1) ''filesize'' PNone) ''B'' (Some ''N/A'') = PStr ''N/A''"
    "get_quantity demo_lib (dict_get (demo_heap 1) ''abr'' PNone) [] (Some ''N/A'') = PStr ''N/A''"
    "get_quantity demo_lib (dict_get (demo_heap 2) ''filesize'' PNone) ''B'' (Some ''N/A'') = PStr ''N/A''"
    by code_simp+
  have w: "map_of (demo_heap 2) ''width'' = Some (PInt 1920)" "map_of (demo_heap 2) ''height'' = Some (PInt 1080)"
    "map_of (demo_heap 1) ''filesize'' = None" "map_of (demo_heap 2) ''wxh'' = None"
    by (simp_all add: demo_heap_def)
  have s: "str_int 1920 @ ''x'' @ str_int 1080 = ''1920x1080''" by code_simp
  have 0: "h2 0 = demo_heap 0" using f0 by simp
  have 1: "map_of (h2 1) ''format_id'' = map_of (demo_heap 1) ''format_id''" using f1 by simp
  have 2: "map_of (h2 1) ''filesize'' = Some (PStr ''N/A'')" "map_of (h2 1) ''abr'' = Some (PStr ''N/A'')"
    using f1 g by simp_all
  have 3: "map_of (h2 2) ''filesize'' = Some (PStr ''N/A'')"
    using f2 g by simp
  have 4: "map_of (h2 2) ''wxh'' = Some (PStr ''1920x1080'')"
    using f2 w s by auto
  show ?thesis
    using a v 0 1 2 3 4 w by auto
qed

section \<open>The classifier\<close>

lemma classify_formats_filter:
  "classify_formats h xs (au0, vi0) = Inr (au, vi) \<Longrightarrow>
   au = au0 @ filter (audio_candidate h) xs \<and> vi = vi0 @ filter (video_candidate h) xs"
proof (induction xs arbitrary: au0 vi0)
  case Nil
  then show ?case by simp
next
  case (Cons x xs)
  show ?case
  proof (cases x)
    case (PRef a)
    show ?thesis
    proof (cases "map_of (h a) ''format_id''")
      case None
      then have "classify_formats h (x # xs) (au0, vi0) = classify_formats h xs (au0, vi0)"
        using PRef by (simp add: dict_get_def isdigit_def strip_def)
      with Cons None PRef show ?thesis by simp
    next
      case (Some v)
      show ?thesis
      proof (cases v)
        case (PStr s)
        from Cons.prems(1) PRef Some PStr
        consider "\<not> audio_candidate h x" "\<not> video_candidate h x" "classify_formats h xs (au0, vi0) = Inr (au, vi)"
          | "audio_candidate h x" "classify_formats h xs (au0 @ [x], vi0) = Inr (au, vi)"
          | "\<not> audio_candidate h x" "video_candidate h x" "classify_formats h xs (au0, vi0 @ [x]) = Inr (au, vi)"
          by (auto simp: dict_get_def split: if_splits)
        then show ?thesis
        proof cases
          case 1
          with Cons.IH [of au0 vi0] show ?thesis by simp
        next
          case 2
          with Cons.IH [of "au0 @ [x]" vi0] PRef show ?thesis by simp
        next
          case 3
          with Cons.IH [of au0 "vi0 @ [x]"] show ?thesis by simp
        qed
      qed (use Cons.prems(1) PRef Some in \<open>simp_all add: dict_get_def\<close>)
    qed
  qed (use Cons.prems(1) in simp_all)
qed

lemma classify_thumbnails_filter:
  "classify_thumbnails lib h ys im = Inr im' \<Longrightarrow> im' = im @ filter (thumbnail_candidate lib h) ys"
proof (induction ys arbitrary: im)
  case Nil
  then show ?case by simp
next
  case (Cons y ys)
  from Cons.prems Cons.IH [of "im @ [y]"] Cons.IH [of im] show ?case
    by (cases y) (auto split: if_splits)
qed

lemma classify_Inr:
  assumes "classify lib h md = Inr fm"
  shows "\<exists>fs xs ts ys.
           obj_get h md ''formats'' PNone = Inr fs \<and> py_iter h fs = Inr xs \<and>
           obj_get h md ''thumbnails'' PNone = Inr ts \<and> py_iter h ts = Inr ys \<and>
           audio fm = filter (audio_candidate h) xs \<and>
           video fm = filter (video_candidate h) xs \<and>
           image fm = filter (thumbnail_candidate lib h) ys \<and>
           metadata fm = md"
proof -
  from assms obtain fs xs au vi ts ys im where
    a: "obj_get h md ''formats'' PNone = Inr fs" "py_iter h fs = Inr xs"
       "classify_formats h xs ([], []) = Inr (au, vi)"
       "obj_get h md ''thumbnails'' PNone = Inr ts" "py_iter h ts = Inr ys"
       "classify_thumbnails lib h ys [] = Inr im"
       "fm = \<lparr>audio = au, video = vi, image = im, metadata = md\<rparr>"
    by (auto simp: classify_def split: sum.splits)
  from classify_formats_filter [OF a(3)] classify_thumbnails_filter [OF a(6)] a show ?thesis
    by simp
qed

lemma classify_lists_distinct:
  assumes "classify lib h md = Inr fm"
    and "obj_get h md ''formats'' PNone = Inr fs"
    and "py_iter h fs = Inr xs"
    and "distinct xs"
  shows "distinct (audio fm) \<and> distinct (video fm) \<and> set (audio fm) \<inter> set (video fm) = {}"
proof -
  from classify_Inr [OF assms(1)] assms(2,3) have
    f: "audio fm = filter (audio_candidate h) xs" "video fm = filter (video_candidate h) xs"
    by auto
  have "\<not> (audio_candidate h x \<and> video_candidate h x)" for x
    by (cases x) auto
  with f assms(4) show ?thesis by auto
qed

lemma odd_classify:
  "classify demo_lib odd_heap (PRef 0) =
     Inr \<lparr>audio = [PRef 1], video = [], image = [PRef 4], metadata = PRef 0\<rparr>"
  by code_simp

lemma odd_formats: "obj_get odd_heap (PRef 0) ''formats'' PNone = Inr (PList [PRef 1, PRef 2])"
  by code_simp

lemma odd_thumbnails: "obj_get odd_heap (PRef 0) ''thumbnails'' PNone = Inr (PList [PRef 3, PRef 4])"
  by code_simp

text \<open>
  Claim C4. A format of the probe's list that passes the test of the id (all digits
  once stripped; the others are dropped before any codec is looked at) and whose
  \<^verbatim>\<open>acodec\<close> is not \<^verbatim>\<open>none\<close> is in the audio list and not in the video list, whatever
  its \<^verbatim>\<open>vcodec\<close>: the audio test comes first.
\<close>

theorem C4_audio_first:
  assumes "classify lib h md = Inr fm"
    and "obj_get h md ''formats'' PNone = Inr fs"
    and "py_iter h fs = Inr xs"
    and "PRef a \<in> set xs"
    and "dict_get (h a) ''format_id'' (PStr []) = PStr s"
    and "isdigit (strip s)"
    and "dict_get (h a) ''acodec'' (PStr ''none'') \<noteq> PStr ''none''"
  shows "PRef a \<in> set (audio fm) \<and> PRef a \<notin> set (video fm)"
proof -
  from classify_Inr [OF assms(1)] assms(2,3) have
    f: "audio fm = filter (audio_candidate h) xs" "video fm = filter (video_candidate h) xs"
    by auto
  have "selectable h (PRef a)"
    using assms(5,6) by (auto simp: dict_get_def isdigit_def strip_def split: option.splits pyval.splits)
  with f assms(4,7) show ?thesis by simp
qed

theorem C4_audio_first_witness:
  "classify demo_lib odd_heap (PRef 0) =
     Inr \<lparr>audio = [PRef 1], video = [], image = [PRef 4], metadata = PRef 0\<rparr> \<and>
   obj_get odd_heap (PRef 0) ''formats'' PNone = Inr (PList [PRef 1, PRef 2]) \<and>
   py_iter odd_heap (PList [PRef 1, PRef 2]) = Inr [PRef 1, PRef 2] \<and>
   PRef 1 \<in> set [PRef 1, PRef 2 :: int pyval] \<and>
   dict_get (odd_heap 1) ''format_id'' (PStr []) = PStr '' 137'' \<and>
   isdigit (strip '' 137'') \<and>
   dict_get (odd_heap 1) ''acodec'' (PStr ''none'') \<noteq> PStr ''none'' \<and>
   dict_get (odd_heap 1) ''vcodec'' (PStr ''none'') \<noteq> PStr ''none'' \<and>
   PRef 1 \<in> set (audio \<lparr>audio = [PRef 1 :: int pyval], video = [], image = [PRef 4], metadata = PRef 0\<rparr>) \<and>
   PRef 1 \<notin> set (video \<lparr>audio = [PRef 1 :: int pyval], video = [], image = [PRef 4], metadata = PRef 0\<rparr>)"
proof -
  have i: "py_iter odd_heap (PList [PRef 1, PRef 2]) = Inr [PRef 1, PRef 2]" by simp
  have m: "PRef 1 \<in> set [PRef 1, PRef 2 :: int pyval]" by simp
  have f: "dict_get (odd_heap 1) ''format_id'' (PStr []) = PStr '' 137''" by code_simp
  have d: "isdigit (strip '' 137'')" by code_simp
  have c: "dict_get (odd_heap 1) ''acodec'' (PStr ''none'') \<noteq> PStr ''none''" by code_simp
  have v: "dict_get (odd_heap 1) ''vcodec'' (PStr ''none'') \<noteq> PStr ''none''" by code_simp
  from C4_audio_first [OF odd_classify odd_formats i m f d c] odd_classify odd_formats i m f d c v
  show ?thesis by blast
qed

text \<open>
  Claim C5, as the program has it. A format whose id, with the whitespace around it
  stripped, is not an all-digit string is in neither list; a format without an id counts
  as one with the empty id.
\<close>

theorem C5_non_digit_id:
  assumes "classify lib h md = Inr fm"
    and "dict_get (h a) ''format_id'' (PStr []) = PStr s"
    and "\<not> isdigit (strip s)"
  shows "PRef a \<notin> set (audio fm) \<and> PRef a \<notin> set (video fm)"
proof -
  have "\<not> selectable h (PRef a)"
    using assms(2,3) by (auto simp: dict_get_def split: option.splits pyval.splits)
  moreover from classify_Inr [OF assms(1)] obtain xs where
    "audio fm = filter (audio_candidate h) xs" "video fm = filter (video_candidate h) xs"
    by auto
  ultimately show ?thesis by simp
qed

text \<open>
  The format at address 1 of the odd probe has the id \<^verbatim>\<open>" 137"\<close>, which is not an
  all-digit string: it is in the audio list.
\<close>

theorem C5_counterexample:
  "map_of (odd_heap 0) ''formats'' = Some (PList [PRef 1, PRef 2]) \<and>
   map_of (odd_heap 1) ''format_id'' = Some (PStr '' 137'') \<and>
   \<not> isdigit '' 137'' \<and>
   map_sum id audio (classify demo_lib odd_heap (PRef 0)) = Inr [PRef 1]"
  by code_simp

theorem C5_non_digit_id_witness:
  "classify demo_lib odd_heap (PRef 0) =
     Inr \<lparr>audio = [PRef 1], video = [], image = [PRef 4], metadata = PRef 0\<rparr> \<and>
   dict_get (odd_heap 2) ''format_id'' (PStr []) = PStr ''hls-audio'' \<and>
   \<not> isdigit (strip ''hls-audio'') \<and>
   PRef 2 \<notin> set (audio \<lparr>audio = [PRef 1 :: int pyval], video = [], image = [PRef 4], metadata = PRef 0\<rparr>) \<and>
   PRef 2 \<notin> set (video \<lparr>audio = [PRef 1 :: int pyval], video = [], image = [PRef 4], metadata = PRef 0\<rparr>)"
proof -
  have f: "dict_get (odd_heap 2) ''format_id'' (PStr []) = PStr ''hls-audio''" by code_simp
  have d: "\<not> isdigit (strip ''hls-audio'')" by code_simp
  from C5_non_digit_id [OF odd_classify f d] odd_classify f d show ?thesis by blast
qed

text \<open>
  Claim C6, as the program has it. The thumbnail list is the probe's list of thumbnails
  filtered, in order, by the truth value of \<^verbatim>\<open>resolution\<close>: a thumbnail without the
  attribute is left out, and one whose resolution is a string is kept exactly when the
  string is not empty.
\<close>

theorem C6_thumbnails:
  assumes "classify lib h md = Inr fm"
    and "obj_get h md ''thumbnails'' PNone = Inr ts"
    and "py_iter h ts = Inr ys"
  shows "image fm = filter (thumbnail_candidate lib h) ys \<and>
         (PRef a \<in> set (image fm)) =
           (PRef a \<in> set ys \<and> truthy lib h (dict_get (h a) ''resolution'' PNone)) \<and>
         (map_of (h a) ''resolution'' = None \<longrightarrow> PRef a \<notin> set (image fm)) \<and>
         (map_of (h a) ''resolution'' = Some (PStr s) \<longrightarrow>
            (PRef a \<in> set (image fm)) = (PRef a \<in> set ys \<and> s \<noteq> []))"
proof -
  from classify_Inr [OF assms(1)] assms(2,3) have "image fm = filter (thumbnail_candidate lib h) ys"
    by auto
  then show ?thesis by (auto simp: dict_get_def)
qed

text \<open>
  The thumbnail at address 3 of the odd probe has the empty string for a resolution: it
  is not in the thumbnail list.
\<close>

theorem C6_counterexample:
  "map_of (odd_heap 0) ''thumbnails'' = Some (PList [PRef 3, PRef 4]) \<and>
   map_of (odd_heap 3) ''resolution'' = Some (PStr []) \<and>
   map_sum id image (classify demo_lib odd_heap (PRef 0)) = Inr [PRef 4] \<and>
   PRef 3 \<notin> set [PRef 4 :: int pyval]"
  by code_simp

theorem C6_thumbnails_witness:
  "classify demo_lib odd_heap (PRef 0) =
     Inr \<lparr>audio = [PRef 1], video = [], image = [PRef 4], metadata = PRef 0\<rparr> \<and>
   obj_get odd_heap (PRef 0) ''thumbnails'' PNone = Inr (PList [PRef 3, PRef 4]) \<and>
   py_iter odd_heap (PList [PRef 3, PRef 4]) = Inr [PRef 3, PRef 4] \<and>
   map_of (odd_heap 4) ''resolution'' = Some (PStr ''1280x720'') \<and>
   (PRef 4 \<in> set (image \<lparr>audio = [PRef 1 :: int pyval], video = [], image = [PRef 4], metadata = PRef 0\<rparr>))
     = (PRef 4 \<in> set [PRef 3, PRef 4 :: int pyval] \<and> ''1280x720'' \<noteq> [])"
proof -
  have i: "py_iter odd_heap (PList [PRef 3, PRef 4]) = Inr [PRef 3, PRef 4]" by simp
  have r: "map_of (odd_heap 4) ''resolution'' = Some (PStr ''1280x720'')" by code_simp
  from C6_thumbnails [OF odd_classify odd_thumbnails i, of 4 "''1280x720''"] r odd_classify odd_thumbnails i
  show ?thesis by simp
qed

section \<open>The candidate lines\<close>

lemma audio_loop_cells:
  "audio_loop lib h (PRef a # rest) options =
     audio_loop lib (audio_assign lib h a) rest
       (options @ [\<lparr>opt_label = concat (audio_cells lib h a),
                    opt_value = dict_get (audio_assign lib h a a) ''format_id'' PNone,
                    opt_description = None\<rparr>])"
  by (simp add: Let_def audio_cells_def render_columns_def)

lemma video_loop_cells:
  "video_assign lib h a = Inr h' \<Longrightarrow> video_cells lib h a = Inr cells \<Longrightarrow>
   video_loop lib h (PRef a # rest) options =
     video_loop lib h' rest
       (options @ [\<lparr>opt_label = concat cells,
                    opt_value = dict_get (h' a) ''format_id'' PNone,
                    opt_description = None\<rparr>])"
  by (auto simp: Let_def video_cells_def render_columns_def)

text \<open>
  Claim C7, at a candidate without a sample rate and one without a video bitrate. The
  audio format of the example has no \<^verbatim>\<open>asr\<close>: its line shows \<^verbatim>\<open>0 Hz\<close> in the column of
  the sample rate, while the columns of the absent bitrate and file size show \<^verbatim>\<open>N/A\<close>.
  The video format has no \<^verbatim>\<open>vbr\<close>: its line shows \<^verbatim>\<open>0\<close> in the column of the bitrate.
  \<^verbatim>\<open>get_quantity\<close> is called without the text \<^verbatim>\<open>N/A\<close> for these two attributes
  (lines 142 and 171) and with it for the others (lines 140, 141 and 170).
\<close>

theorem C7_absent_rates:
  "map_of (demo_heap 1) ''asr'' = None \<and>
   audio_cells demo_lib demo_heap 1 ! 5 = ''  sample rate: 0 Hz      '' \<and>
   audio_cells demo_lib demo_heap 1 ! 5 \<noteq> ''  sample rate: '' @ ljust 10 ''N/A'' \<and>
   audio_cells demo_lib demo_heap 1 ! 4 = ''  bitrate: '' @ ljust 7 ''N/A'' \<and>
   audio_cells demo_lib demo_heap 1 ! 6 = ''  filesize: '' @ ljust 10 ''N/A'' \<and>
   fst (pick_yt_audio_format demo_lib demo_heap [PRef 1] (Some ''best'') (Some 2)) =
     [Menu ''Select audio''
        [\<lparr>opt_label = ''best audio'', opt_value = PStr ''bestaudio'', opt_description = None\<rparr>,
         \<lparr>opt_label = ''no audio'', opt_value = PNone, opt_description = None\<rparr>,
         \<lparr>opt_label = ''id: 140    codec: mp4a.40.2   ext: m4a    lang: N/A  bitrate: N/A      sample rate: 0 Hz        filesize: N/A       '',
          opt_value = PStr ''140'', opt_description = None\<rparr>]
        0] \<and>
   map_of (demo_heap 2) ''vbr'' = None \<and>
   map_sum id (\<lambda>cells. cells ! 4) (video_cells demo_lib demo_heap 2) = Inr ''  bitrate: 0         '' \<and>
   map_sum id (\<lambda>cells. cells ! 4) (video_cells demo_lib demo_heap 2) \<noteq> Inr (''  bitrate: '' @ ljust 10 ''N/A'') \<and>
   map_sum id (\<lambda>cells. cells ! 6) (video_cells demo_lib demo_heap 2) = Inr (''  filesize: '' @ ljust 10 ''N/A'') \<and>
   fst (pick_yt_video_format demo_lib demo_heap [PRef 2] (Some ''best'') (Some 2)) =
     [Menu ''Select video''
        [\<lparr>opt_label = ''best video'', opt_value = PStr ''bestvideo'', opt_description = None\<rparr>,
         \<lparr>opt_label = ''no video'', opt_value = PNone, opt_description = None\<rparr>,
         \<lparr>opt_label = ''id: 137    codec: avc1.640028      ext: mp4    format: 1920x1080   bitrate: 0           fps: 30    filesize: N/A       '',
          opt_value = PStr ''137'', opt_description = None\<rparr>]
        0]"
  by code_simp

section \<open>Width and height\<close>

lemma video_assign_keeps:
  "video_assign lib h a = Inr h' \<Longrightarrow>
   map_of (h' b) ''width'' = map_of (h b) ''width'' \<and> map_of (h' b) ''height'' = map_of (h b) ''height''"
  using video_assign_frame [of lib h a h' "''width''" b] video_assign_frame [of lib h a h' "''height''" b]
  by simp

lemma video_loop_total:
  "\<forall>a\<in>set as. map_of (h a) ''width'' \<noteq> None \<and> map_of (h a) ''height'' \<noteq> None \<Longrightarrow>
   \<exists>h' options. video_loop lib h (map PRef as) opts = Inr (h', options) \<and>
      length options = length opts + length as"
proof (induction as arbitrary: h opts)
  case Nil
  then show ?case by simp
next
  case (Cons a as)
  from Cons.prems have "\<not> (\<exists>e. video_assign lib h a = Inl e)"
    by (auto simp: video_assign_Inl)
  then obtain h1 where h1: "video_assign lib h a = Inr h1"
    by (cases "video_assign lib h a") auto
  have "\<forall>b\<in>set as. map_of (h1 b) ''width'' \<noteq> None \<and> map_of (h1 b) ''height'' \<noteq> None"
    using Cons.prems video_assign_keeps [OF h1] by simp
  from Cons.IH [OF this, of "opts @ [\<lparr>opt_label = render_columns lib h1 (video_columns (h1 a)),
      opt_value = dict_get (h1 a) ''format_id'' PNone, opt_description = None\<rparr>]"] h1
  show ?case
    by (auto simp: Let_def)
qed

lemma video_loop_fails:
  "\<exists>a\<in>set as. map_of (h a) ''width'' = None \<or> map_of (h a) ''height'' = None \<Longrightarrow>
   video_loop lib h (map PRef as) opts = Inl (KeyError ''width'') \<or>
   video_loop lib h (map PRef as) opts = Inl (KeyError ''height'')"
proof (induction as arbitrary: h opts)
  case Nil
  then show ?case by simp
next
  case (Cons a as)
  show ?case
  proof (cases "video_assign lib h a")
    case (Inl e)
    then have "e = KeyError ''width'' \<or> e = KeyError ''height''"
      by (auto simp: video_assign_Inl)
    with Inl show ?thesis by auto
  next
    case (Inr h1)
    then have "map_of (h a) ''width'' \<noteq> None \<and> map_of (h a) ''height'' \<noteq> None"
      using video_assign_Inl [of lib h a] by (metis sum.distinct(1) not_None_eq option.exhaust)
    with Cons.prems have "\<exists>b\<in>set as. map_of (h b) ''width'' = None \<or> map_of (h b) ''height'' = None"
      by auto
    then have "\<exists>b\<in>set as. map_of (h1 b) ''width'' = None \<or> map_of (h1 b) ''height'' = None"
      using video_assign_keeps [OF Inr] by simp
    from Cons.IH [OF this] Inr show ?thesis
      by (simp add: Let_def)
  qed
qed

text \<open>
  Claim C10. When a video candidate has no \<^verbatim>\<open>width\<close> or no \<^verbatim>\<open>height\<close>,
  \<^verbatim>\<open>pick_yt_video_format\<close> raises KeyError for one of the two keys and shows no menu;
  when every candidate has both, the loop renders an option for each candidate and the
  menu is shown.
\<close>

theorem C10_width_height:
  "((\<exists>a\<in>set as. map_of (h a) ''width'' = None \<or> map_of (h a) ''height'' = None) \<longrightarrow>
      pick_yt_video_format lib h (map PRef as) dflt choice = ([], Raised (KeyError ''width'')) \<or>
      pick_yt_video_format lib h (map PRef as) dflt choice = ([], Raised (KeyError ''height''))) \<and>
   ((\<forall>a\<in>set as. map_of (h a) ''width'' \<noteq> None \<and> map_of (h a) ''height'' \<noteq> None) \<longrightarrow>
      (\<exists>h' options.
         video_loop lib h (map PRef as)
           [\<lparr>opt_label = ''best video'', opt_value = PStr ''bestvideo'', opt_description = None\<rparr>,
            \<lparr>opt_label = ''no video'', opt_value = PNone, opt_description = None\<rparr>] = Inr (h', options) \<and>
         length options = 2 + length as \<and>
         fst (pick_yt_video_format lib h (map PRef as) dflt choice) =
           [Menu ''Select video'' options (default_index options dflt 0)]))"
proof (intro conjI impI)
  let ?init = "[\<lparr>opt_label = ''best video'', opt_value = PStr ''bestvideo'', opt_description = None\<rparr>,
            \<lparr>opt_label = ''no video'', opt_value = PNone, opt_description = None\<rparr>] :: 'a menu_option list"
  {
    assume "\<exists>a\<in>set as. map_of (h a) ''width'' = None \<or> map_of (h a) ''height'' = None"
    from video_loop_fails [OF this, of lib ?init]
    show "pick_yt_video_format lib h (map PRef as) dflt choice = ([], Raised (KeyError ''width'')) \<or>
      pick_yt_video_format lib h (map PRef as) dflt choice = ([], Raised (KeyError ''height''))"
      by (auto simp: pick_yt_video_format_def)
  next
    assume "\<forall>a\<in>set as. map_of (h a) ''width'' \<noteq> None \<and> map_of (h a) ''height'' \<noteq> None"
    from video_loop_total [OF this, of lib ?init] obtain h' options where
      l: "video_loop lib h (map PRef as) ?init = Inr (h', options)" "length options = 2 + length as"
      by auto
    have "fst (pick_yt_video_format lib h (map PRef as) dflt choice) =
           [Menu ''Select video'' options (default_index options dflt 0)]"
      using l(1)
      by (cases "pick_pick ''Select video'' options (default_index options dflt 0) choice")
         (auto simp: pick_yt_video_format_def pick_pick_def split: option.splits)
    with l show "\<exists>h' options.
         video_loop lib h (map PRef as) ?init = Inr (h', options) \<and>
         length options = 2 + length as \<and>
         fst (pick_yt_video_format lib h (map PRef as) dflt choice) =
           [Menu ''Select video'' options (default_index options dflt 0)]"
      by blast
  }
qed

theorem C10_width_height_witness:
  "(\<exists>a\<in>set [2, 3]. map_of (full_heap a) ''width'' = None \<or> map_of (full_heap a) ''height'' = None) \<and>
   pick_yt_video_format demo_lib full_heap (map PRef [2, 3]) (Some ''best'') (Some 0) =
     ([], Raised (KeyError ''height'')) \<and>
   map_of (full_heap 2) ''width'' \<noteq> None \<and> map_of (full_heap 2) ''height'' \<noteq> None \<and>
   (\<exists>h' options.
      video_loop demo_lib full_heap (map PRef [2])
        [\<lparr>opt_label = ''best video'', opt_value = PStr ''bestvideo'', opt_description = None\<rparr>,
         \<lparr>opt_label = ''no video'', opt_value = PNone, opt_description = None\<rparr>] = Inr (h', options) \<and>
      length options = 2 + length [2 :: nat] \<and>
      fst (pick_yt_video_format demo_lib full_heap (map PRef [2]) (Some ''best'') (Some 0)) =
        [Menu ''Select video'' options (default_index options (Some ''best'') 0)])"
proof -
  have m: "\<exists>a\<in>set [2, 3]. map_of (full_heap a) ''width'' = None \<or> map_of (full_heap a) ''height'' = None"
    by (simp add: full_heap_def)
  have p: "\<forall>a\<in>set [2]. map_of (full_heap a) ''width'' \<noteq> None \<and> map_of (full_heap a) ''height'' \<noteq> None"
    by (simp add: full_heap_def)
  have k: "pick_yt_video_format demo_lib full_heap (map PRef [2, 3]) (Some ''best'') (Some 0) \<noteq>
     ([], Raised (KeyError ''width''))"
    by (simp add: pick_yt_video_format_def video_assign_def Let_def full_heap_def map_of_dict_set)
  from C10_width_height [of "[2, 3]" full_heap demo_lib "Some ''best''" "Some 0"] m k
  have 1: "pick_yt_video_format demo_lib full_heap (map PRef [2, 3]) (Some ''best'') (Some 0) =
     ([], Raised (KeyError ''height''))"
    by blast
  from C10_width_height [of "[2]" full_heap demo_lib "Some ''best''" "Some 0"] p
  have 2: "\<exists>h' options.
      video_loop demo_lib full_heap (map PRef [2])
        [\<lparr>opt_label = ''best video'', opt_value = PStr ''bestvideo'', opt_description = None\<rparr>,
         \<lparr>opt_label = ''no video'', opt_value = PNone, opt_description = None\<rparr>] = Inr (h', options) \<and>
      length options = 2 + length [2 :: nat] \<and>
      fst (pick_yt_video_format demo_lib full_heap (map PRef [2]) (Some ''best'') (Some 0)) =
        [Menu ''Select video'' options (default_index options (Some ''best'') 0)]"
    by blast
  have q: "map_of (full_heap 2) ''width'' \<noteq> None" "map_of (full_heap 2) ''height'' \<noteq> None"
    by (simp_all add: full_heap_def)
  show ?thesis
    by (intro conjI m 1 q 2)
qed

end
